theory Spec2Isabelle
  imports Complex_Main "HOL-Library.Log_Nat"
begin

section \<open>Python values\<close>

text \<open>
  The resource records, the snapshot returned by \<open>get_metrics\<close> and the dashboard items
  are Python dictionaries of JSON-like values. A dictionary is an association list in
  insertion order. Strings are ASCII character lists; floating-point values do not occur
  in the records of this model.
\<close>

datatype pyval =
    PNone
  | PBool bool
  | PInt int
  | PStr string
  | PList "pyval list"
  | PDict "(pyval \<times> pyval) list"

type_synonym pydict = "(pyval \<times> pyval) list"

datatype py_error = TypeError | AttributeError | OverflowError | ValueError

text \<open>Truth value of an object, as \<open>if x\<close>, \<open>not x\<close>, \<open>x or y\<close> and \<open>bool(x)\<close> use it.\<close>

fun truthy :: "pyval \<Rightarrow> bool" where
  "truthy PNone = False"
| "truthy (PBool b) = b"
| "truthy (PInt n) = (n \<noteq> 0)"
| "truthy (PStr s) = (s \<noteq> [])"
| "truthy (PList xs) = (xs \<noteq> [])"
| "truthy (PDict kvs) = (kvs \<noteq> [])"

text \<open>\<open>a or b\<close>: the first operand when it is truthy, the second otherwise.\<close>

definition py_or :: "pyval \<Rightarrow> pyval \<Rightarrow> pyval" where
  "py_or a b = (if truthy a then a else b)"

text \<open>
  Lists and dictionaries are unhashable: using one as a dictionary key or a set element
  raises \<open>TypeError\<close>. \<open>True\<close> and \<open>1\<close> (\<open>False\<close> and \<open>0\<close>) are equal and hash
  alike, so they are the same key; \<open>hkey\<close> maps a hashable value to the representative
  that key comparison uses.
\<close>

fun hashable :: "pyval \<Rightarrow> bool" where
  "hashable (PList xs) = False"
| "hashable (PDict kvs) = False"
| "hashable v = True"

fun hkey :: "pyval \<Rightarrow> pyval" where
  "hkey (PBool b) = PInt (if b then 1 else 0)"
| "hkey v = v"

subsection \<open>Dictionaries\<close>

text \<open>\<open>d.get(k)\<close> with \<open>None\<close> for a missing key, and \<open>d.get(k, default)\<close>.\<close>

fun d_lookup :: "pydict \<Rightarrow> pyval \<Rightarrow> pyval option" where
  "d_lookup [] k = None"
| "d_lookup ((k', v) # kvs) k = (if hkey k' = hkey k then Some v else d_lookup kvs k)"

definition d_get :: "pydict \<Rightarrow> string \<Rightarrow> pyval" where
  "d_get d k = (case d_lookup d (PStr k) of None \<Rightarrow> PNone | Some v \<Rightarrow> v)"

definition d_get_default :: "pydict \<Rightarrow> string \<Rightarrow> pyval \<Rightarrow> pyval" where
  "d_get_default d k dflt = (case d_lookup d (PStr k) of None \<Rightarrow> dflt | Some v \<Rightarrow> v)"

text \<open>\<open>d[k] = v\<close>: an existing key keeps its place (and its key object), a new one is appended.\<close>

fun d_set :: "pydict \<Rightarrow> pyval \<Rightarrow> pyval \<Rightarrow> pydict" where
  "d_set [] k v = [(k, v)]"
| "d_set ((k', v') # kvs) k v =
     (if hkey k' = hkey k then (k', v) # kvs else (k', v') # d_set kvs k v)"

text \<open>\<open>d.update(e)\<close>: the entries of \<open>e\<close> are stored in their order.\<close>

fun d_update :: "pydict \<Rightarrow> pydict \<Rightarrow> pydict" where
  "d_update d [] = d"
| "d_update d ((k, v) # kvs) = d_update (d_set d k v) kvs"

subsection \<open>Strings\<close>

text \<open>\<open>str.lower\<close>, \<open>str.strip\<close>, \<open>str.strip('_')\<close> and \<open>str.isalnum\<close> on ASCII characters.\<close>

definition ord :: "char \<Rightarrow> nat" where
  "ord c = of_char c"

definition ascii_uppercase :: string where
  "ascii_uppercase = ''ABCDEFGHIJKLMNOPQRSTUVWXYZ''"

definition ascii_lowercase :: string where
  "ascii_lowercase = ''abcdefghijklmnopqrstuvwxyz''"

definition ascii_digits :: string where
  "ascii_digits = ''0123456789''"

definition is_upper :: "char \<Rightarrow> bool" where
  "is_upper c = (c \<in> set ascii_uppercase)"

definition is_lower :: "char \<Rightarrow> bool" where
  "is_lower c = (c \<in> set ascii_lowercase)"

definition is_digit :: "char \<Rightarrow> bool" where
  "is_digit c = (c \<in> set ascii_digits)"

definition is_alnum :: "char \<Rightarrow> bool" where
  "is_alnum c = (is_upper c \<or> is_lower c \<or> is_digit c)"

definition lower_char :: "char \<Rightarrow> char" where
  "lower_char c = (case map_of (zip ascii_uppercase ascii_lowercase) c of None \<Rightarrow> c | Some l \<Rightarrow> l)"

definition lower :: "string \<Rightarrow> string" where
  "lower s = map lower_char s"

text \<open>The ASCII characters for which \<open>str.isspace\<close> holds: space, 9 to 13 and 28 to 31.\<close>

definition is_space :: "char \<Rightarrow> bool" where
  "is_space c = (ord c = 32 \<or> (9 \<le> ord c \<and> ord c \<le> 13) \<or> (28 \<le> ord c \<and> ord c \<le> 31))"

definition strip_chars :: "(char \<Rightarrow> bool) \<Rightarrow> string \<Rightarrow> string" where
  "strip_chars p s = rev (dropWhile p (rev (dropWhile p s)))"

definition strip :: "string \<Rightarrow> string" where
  "strip s = strip_chars is_space s"

text \<open>\<open>str(n)\<close> for an integer.\<close>

definition digit_char :: "nat \<Rightarrow> char" where
  "digit_char n = ascii_digits ! n"

fun str_nat :: "nat \<Rightarrow> string" where
  "str_nat n = (if n < 10 then [digit_char n] else str_nat (n div 10) @ [digit_char (n mod 10)])"

declare str_nat.simps [simp del]

definition str_int :: "int \<Rightarrow> string" where
  "str_int i = (if i < 0 then CHR ''-'' # str_nat (nat (- i)) else str_nat (nat i))"

text \<open>
  \<open>repr\<close> of a value, which \<open>str\<close> returns for everything but a string: a string is
  quoted with single quotes (double quotes when it holds a single quote and no double
  quote), with backslash escapes for the backslash, the quote, tab, newline, carriage
  return and the other control characters.
\<close>

definition hex_digit :: "nat \<Rightarrow> char" where
  "hex_digit n = ''0123456789abcdef'' ! n"

definition repr_char :: "char \<Rightarrow> char \<Rightarrow> string" where
  "repr_char quote c =
     (if c = CHR 0x5C then [CHR 0x5C, CHR 0x5C]
      else if c = quote then [CHR 0x5C, quote]
      else if c = CHR 0x09 then [CHR 0x5C, CHR ''t'']
      else if c = CHR 0x0A then [CHR 0x5C, CHR ''n'']
      else if c = CHR 0x0D then [CHR 0x5C, CHR ''r'']
      else if ord c < 32 \<or> ord c = 127
        then [CHR 0x5C, CHR ''x'', hex_digit (ord c div 16), hex_digit (ord c mod 16)]
      else [c])"

definition repr_str :: "string \<Rightarrow> string" where
  "repr_str s =
     (let quote = (if CHR 0x27 \<in> set s \<and> CHR 0x22 \<notin> set s then CHR 0x22 else CHR 0x27)
      in [quote] @ concat (map (repr_char quote) s) @ [quote])"

fun join :: "string \<Rightarrow> string list \<Rightarrow> string" where
  "join sep [] = []"
| "join sep [x] = x"
| "join sep (x # y # ys) = x @ sep @ join sep (y # ys)"

fun py_repr :: "pyval \<Rightarrow> string" where
  "py_repr PNone = ''None''"
| "py_repr (PBool b) = (if b then ''True'' else ''False'')"
| "py_repr (PInt i) = str_int i"
| "py_repr (PStr s) = repr_str s"
| "py_repr (PList xs) = ''['' @ join '', '' (map py_repr xs) @ '']''"
| "py_repr (PDict kvs) =
     ''{'' @ join '', '' (map (\<lambda>(k, v). py_repr k @ '': '' @ py_repr v) kvs) @ ''}''"

definition py_str :: "pyval \<Rightarrow> string" where
  "py_str v = (case v of PStr s \<Rightarrow> s | _ \<Rightarrow> py_repr v)"

section \<open>Helpers\<close>

subsection \<open>Double-precision arithmetic\<close>

text \<open>
  \<open>_safe_pct\<close> computes in floating point: \<open>numer / denom\<close> is the quotient of the two
  integers correctly rounded to a binary64 number, and the product with \<open>100\<close> is rounded
  again. A finite double is the rational it denotes. \<open>fl64 q\<close> rounds the rational \<open>q\<close>
  to the nearest double, ties to the even significand: 53 significant bits, the least
  exponent \<open>-1022\<close> (below it the spacing stays \<open>2^-1074\<close>), and \<open>None\<close> when the rounded
  magnitude reaches \<open>2^1024\<close> (overflow).
\<close>

definition pow2 :: "int \<Rightarrow> rat" where
  "pow2 k = (if 0 \<le> k then 2 ^ nat k else 1 / 2 ^ nat (- k))"

definition round_half_even :: "rat \<Rightarrow> int" where
  "round_half_even q =
     (let f = \<lfloor>q\<rfloor>; r = q - of_int f
      in if r < 1 / 2 then f else if 1 / 2 < r then f + 1 else if even f then f else f + 1)"

text \<open>The exponent \<open>e\<close> of a positive rational: \<open>2^e \<le> q < 2^(e+1)\<close>.\<close>

definition ilog2 :: "rat \<Rightarrow> int" where
  "ilog2 q =
     (let (a, b) = quotient_of q; k = bitlen a - bitlen b
      in if pow2 k \<le> q then k else k - 1)"

definition fl64 :: "rat \<Rightarrow> rat option" where
  "fl64 q =
     (if q = 0 then Some 0
      else let e = max (ilog2 \<bar>q\<bar>) (- 1022);
               u = pow2 (e - 52);
               r = of_int (round_half_even (q / u)) * u
           in if pow2 1024 \<le> \<bar>r\<bar> then None else Some r)"

datatype pyfloat = Fin rat | Inf

text \<open>
  \<open>a / b\<close> on integers with \<open>b \<noteq> 0\<close>: the correctly rounded quotient, or
  \<open>OverflowError\<close> when it is too large for a float.
\<close>

definition int_true_div :: "int \<Rightarrow> int \<Rightarrow> py_error + rat" where
  "int_true_div a b =
     (case fl64 (of_int a / of_int b) of None \<Rightarrow> Inl OverflowError | Some q \<Rightarrow> Inr q)"

text \<open>The product of two finite floats; it overflows to infinity without an exception.\<close>

definition float_mul :: "rat \<Rightarrow> rat \<Rightarrow> pyfloat" where
  "float_mul x y = (case fl64 (x * y) of None \<Rightarrow> Inf | Some r \<Rightarrow> Fin r)"

text \<open>\<open>round(x)\<close> on a float: the nearest integer, ties to even; infinity raises.\<close>

definition py_round :: "pyfloat \<Rightarrow> py_error + int" where
  "py_round x = (case x of Inf \<Rightarrow> Inl OverflowError | Fin r \<Rightarrow> Inr (round_half_even r))"

subsection \<open>\<open>_safe_pct\<close>\<close>

text \<open>
  The \<open>try\<close> block turns every exception of the computation into the result \<open>0\<close>.
\<close>

definition safe_pct :: "int \<Rightarrow> int \<Rightarrow> int" where
  "safe_pct numer denom =
     (if denom = 0 then 0
      else case int_true_div numer denom of
             Inl e \<Rightarrow> 0
           | Inr q \<Rightarrow> (case py_round (float_mul q 100) of Inl e \<Rightarrow> 0 | Inr r \<Rightarrow> r))"

section \<open>MetricsAccumulator\<close>

subsection \<open>State\<close>

text \<open>
  A \<open>defaultdict(int)\<close> is an association list from keys to counts in insertion order; a
  missing key counts \<open>0\<close>. A set is the list of the representatives of its elements.
  Each bucket of \<open>network_health\<close> is the pair of its \<open>total\<close> and \<open>healthy\<close> counts.
\<close>

type_synonym counter = "(pyval \<times> int) list"

fun c_get :: "counter \<Rightarrow> pyval \<Rightarrow> int" where
  "c_get [] k = 0"
| "c_get ((k', n) # kvs) k = (if hkey k' = hkey k then n else c_get kvs k)"

text \<open>\<open>d[k] += 1\<close> on a \<open>defaultdict(int)\<close>, for a hashable key.\<close>

fun c_incr :: "counter \<Rightarrow> pyval \<Rightarrow> counter" where
  "c_incr [] k = [(k, 1)]"
| "c_incr ((k', n) # kvs) k =
     (if hkey k' = hkey k then (k', n + 1) # kvs else (k', n) # c_incr kvs k)"

record nh_bucket =
  nh_total :: int
  nh_healthy :: int

record acc =
  resource_counts :: counter
  account_counts :: counter
  region_counts :: counter
  account_names :: pydict
  regions_collected :: "pyval list"
  ec2_states :: counter
  ec2_health :: counter
  ec2_cw_memory :: int
  ec2_cw_disk :: int
  ec2_cw_both :: int
  ec2_ssm_connected :: int
  ec2_ssm_notconnected :: int
  ec2_ssm_notinstalled :: int
  ec2_total :: int
  ec2_running :: int
  ec2_stopped :: int
  ec2_patch_compliant :: int
  ec2_patch_noncompliant :: int
  ec2_patch_unknown :: int
  rds_total :: int
  rds_available :: int
  rds_engines :: counter
  rds_multiaz :: int
  rds_performance_insights :: int
  s3_total :: int
  s3_with_lifecycle :: int
  efs_total :: int
  fsx_total :: int
  backup_plans :: int
  backup_vaults :: int
  backup_recovery_points :: int
  sg_total :: int
  sg_with_exposed_ports :: int
  vpc_total :: int
  subnet_total :: int
  network_health :: "(string \<times> nh_bucket) list"
  ebs_unattached :: int
  eip_unassociated :: int
  snapshots_orphaned :: int
  seen_ebs :: "(pyval \<times> pyval \<times> pyval) list"

text \<open>\<open>reset\<close> assigns every attribute anew, whatever the state was.\<close>

definition reset :: acc where
  "reset = \<lparr>
     resource_counts = [], account_counts = [], region_counts = [], account_names = [],
     regions_collected = [],
     ec2_states = [], ec2_health = [],
     ec2_cw_memory = 0, ec2_cw_disk = 0, ec2_cw_both = 0,
     ec2_ssm_connected = 0, ec2_ssm_notconnected = 0, ec2_ssm_notinstalled = 0,
     ec2_total = 0, ec2_running = 0, ec2_stopped = 0,
     ec2_patch_compliant = 0, ec2_patch_noncompliant = 0, ec2_patch_unknown = 0,
     rds_total = 0, rds_available = 0, rds_engines = [], rds_multiaz = 0,
     rds_performance_insights = 0,
     s3_total = 0, s3_with_lifecycle = 0,
     efs_total = 0, fsx_total = 0, backup_plans = 0, backup_vaults = 0,
     backup_recovery_points = 0,
     sg_total = 0, sg_with_exposed_ports = 0, vpc_total = 0, subnet_total = 0,
     network_health =
       [(''directConnectConnections'', \<lparr>nh_total = 0, nh_healthy = 0\<rparr>),
        (''directConnectVirtualInterfaces'', \<lparr>nh_total = 0, nh_healthy = 0\<rparr>),
        (''vpnConnections'', \<lparr>nh_total = 0, nh_healthy = 0\<rparr>),
        (''transitGateways'', \<lparr>nh_total = 0, nh_healthy = 0\<rparr>)],
     ebs_unattached = 0, eip_unassociated = 0, snapshots_orphaned = 0,
     seen_ebs = [] \<rparr>"

text \<open>
  A method mutates the accumulator in place, so an exception leaves the updates made
  before it: \<open>Raised e s\<close> is the exception \<open>e\<close> with the accumulator as it then is.
\<close>

datatype outcome = Ok acc | Raised py_error acc

fun state_of :: "outcome \<Rightarrow> acc" where
  "state_of (Ok s) = s"
| "state_of (Raised e s) = s"

fun bind :: "outcome \<Rightarrow> (acc \<Rightarrow> outcome) \<Rightarrow> outcome" where
  "bind (Ok s) f = f s"
| "bind (Raised e s) f = Raised e s"

subsection \<open>Normalisation helpers\<close>

text \<open>\<open>_normalize_state\<close>: \<open>str(value).strip().lower()\<close>, and \<open>None\<close> for an empty result.\<close>

definition normalize_state :: "pyval \<Rightarrow> string option" where
  "normalize_state v =
     (if v = PNone then None
      else let normalized = lower (strip (py_str v))
           in if normalized = [] then None else Some normalized)"

text \<open>
  \<open>_as_list_or_none\<close>. \<open>json.loads\<close> belongs to the standard library and is a parameter
  here: \<open>json_loads s\<close> is \<open>None\<close> when it raises and the parsed value otherwise.
\<close>

definition as_list_or_none :: "(string \<Rightarrow> pyval option) \<Rightarrow> pyval \<Rightarrow> pyval list option" where
  "as_list_or_none json_loads v =
     (case v of
        PNone \<Rightarrow> None
      | PStr str \<Rightarrow>
          (let s = strip str
           in if lower s \<in> set [[], ''none'', ''null'', ''[]''] then Some []
              else (case json_loads s of
                      None \<Rightarrow> None
                    | Some (PList parsed) \<Rightarrow> Some parsed
                    | Some _ \<Rightarrow> Some []))
      | PList xs \<Rightarrow> Some xs
      | _ \<Rightarrow> Some [v])"

text \<open>\<open>_normalize_volume_api_name\<close>.\<close>

definition normalize_volume_api_name :: "pyval \<Rightarrow> py_error + string" where
  "normalize_volume_api_name vtype =
     (case py_or vtype (PStr []) of
        PStr t \<Rightarrow>
          (let v = lower t
           in Inr (if v \<in> set [''gp3'', ''gp2'', ''io1'', ''io2'', ''st1'', ''sc1'', ''standard''] then v
              else if v \<in> set [''gp-3'', ''general_purpose_gp3'', ''general-purpose-gp3''] then ''gp3''
              else if v \<in> set [''gp-2'', ''general_purpose'', ''general-purpose''] then ''gp2''
              else if v \<in> set [''throughput-optimized-hdd'', ''throughput_optimized_hdd''] then ''st1''
              else if v \<in> set [''cold-hdd'', ''cold_hdd''] then ''sc1''
              else if v \<in> set [''magnetic''] then ''standard''
              else ''gp3''))
      | _ \<Rightarrow> Inl AttributeError)"

text \<open>
  The loop over several keys that keeps the first non-empty normalised value, as in
  \<open>_process_ebs_item\<close> and \<open>_is_direct_connect_virtual_interface_healthy\<close>.
\<close>

fun first_normalized :: "pydict \<Rightarrow> string list \<Rightarrow> string option" where
  "first_normalized item [] = None"
| "first_normalized item (k # ks) =
     (case normalize_state (d_get item k) of
        Some st \<Rightarrow> Some st
      | None \<Rightarrow> first_normalized item ks)"

subsection \<open>Network health\<close>

text \<open>The scan of \<open>bgpPeers\<close>: entries that are not dictionaries are skipped.\<close>

fun scan_bgp_peers :: "pyval list \<Rightarrow> bool" where
  "scan_bgp_peers [] = False"
| "scan_bgp_peers (peer # peers) =
     (case peer of
        PDict p \<Rightarrow>
          (case normalize_state (d_get p ''bgpStatus'') of
             Some peer_status \<Rightarrow> if peer_status = ''up'' then True else scan_bgp_peers peers
           | None \<Rightarrow>
               if normalize_state (d_get p ''bgpPeerState'') = Some ''available'' then True
               else scan_bgp_peers peers)
      | _ \<Rightarrow> scan_bgp_peers peers)"

definition is_direct_connect_virtual_interface_healthy :: "pydict \<Rightarrow> bool" where
  "is_direct_connect_virtual_interface_healthy item =
     (if item = [] then False
      else case d_get item ''bgpAllUp'' of
        PBool bgp_all_up \<Rightarrow> bgp_all_up
      | _ \<Rightarrow>
       (case d_get item ''bgpAnyUp'' of
          PBool bgp_any_up \<Rightarrow> bgp_any_up
        | _ \<Rightarrow>
         (case first_normalized item [''bgpStatus'', ''bgpStatusIpv4'', ''bgpStatusIpv6''] of
            Some status \<Rightarrow> status = ''up''
          | None \<Rightarrow>
              scan_bgp_peers (case d_get item ''bgpPeers'' of PList peers \<Rightarrow> peers | _ \<Rightarrow> []))))"

fun nh_incr :: "(string \<times> nh_bucket) list \<Rightarrow> string \<Rightarrow> bool \<Rightarrow> (string \<times> nh_bucket) list" where
  "nh_incr [] key is_healthy =
     [(key, \<lparr>nh_total = 1, nh_healthy = (if is_healthy then 1 else 0)\<rparr>)]"
| "nh_incr ((k, b) # bs) key is_healthy =
     (if k = key
      then (k, \<lparr>nh_total = nh_total b + 1,
                nh_healthy = (if is_healthy then nh_healthy b + 1 else nh_healthy b)\<rparr>) # bs
      else (k, b) # nh_incr bs key is_healthy)"

definition increment_network_health :: "acc \<Rightarrow> string \<Rightarrow> bool \<Rightarrow> acc" where
  "increment_network_health s key is_healthy =
     s\<lparr>network_health := nh_incr (network_health s) key is_healthy\<rparr>"

definition process_network_resource :: "acc \<Rightarrow> pyval \<Rightarrow> pydict \<Rightarrow> acc" where
  "process_network_resource s resource_type item =
     (if resource_type = PStr ''DirectConnectConnection'' then
        increment_network_health s ''directConnectConnections''
          (normalize_state (d_get item ''connectionState'') = Some ''available'')
      else if resource_type = PStr ''DirectConnectVirtualInterface'' then
        increment_network_health s ''directConnectVirtualInterfaces''
          (is_direct_connect_virtual_interface_healthy item)
      else if resource_type = PStr ''VPNConnection'' then
        increment_network_health s ''vpnConnections''
          (normalize_state (d_get item ''state'') = Some ''available'')
      else if resource_type = PStr ''TransitGateway'' then
        increment_network_health s ''transitGateways''
          (normalize_state (d_get item ''state'') = Some ''available'')
      else s)"

subsection \<open>Type-specific processors\<close>

text \<open>\<open>x.lower()\<close> and \<open>x.strip().lower()\<close>: only a string has these methods.\<close>

definition py_lower :: "pyval \<Rightarrow> py_error + string" where
  "py_lower v = (case v of PStr s \<Rightarrow> Inr (lower s) | _ \<Rightarrow> Inl AttributeError)"

definition py_strip_lower :: "pyval \<Rightarrow> py_error + string" where
  "py_strip_lower v = (case v of PStr s \<Rightarrow> Inr (lower (strip s)) | _ \<Rightarrow> Inl AttributeError)"

text \<open>The branch of \<open>_process_ec2_item\<close> for a running instance.\<close>

definition ec2_running_block :: "acc \<Rightarrow> pydict \<Rightarrow> outcome" where
  "ec2_running_block s item =
     (let s1 = s\<lparr>ec2_running := ec2_running s + 1\<rparr>;
          has_memory = truthy (d_get_default item ''cwAgentMemoryDetected'' (PBool False));
          has_disk = truthy (d_get_default item ''cwAgentDiskDetected'' (PBool False));
          s2 = (if has_memory then s1\<lparr>ec2_cw_memory := ec2_cw_memory s1 + 1\<rparr> else s1);
          s3 = (if has_disk then s2\<lparr>ec2_cw_disk := ec2_cw_disk s2 + 1\<rparr> else s2);
          s4 = (if has_memory \<and> has_disk then s3\<lparr>ec2_cw_both := ec2_cw_both s3 + 1\<rparr> else s3)
      in case py_lower (py_or (d_get item ''ssmStatus'') (PStr [])) of
           Inl e \<Rightarrow> Raised e s4
         | Inr ssm_status \<Rightarrow>
             Ok (if ssm_status \<in> set [''connected'', ''online'']
                   then s4\<lparr>ec2_ssm_connected := ec2_ssm_connected s4 + 1\<rparr>
                 else if ssm_status = ''notinstalled'' \<or> ssm_status = []
                   then s4\<lparr>ec2_ssm_notinstalled := ec2_ssm_notinstalled s4 + 1\<rparr>
                 else s4\<lparr>ec2_ssm_notconnected := ec2_ssm_notconnected s4 + 1\<rparr>))"

text \<open>The health histogram and the patch compliance buckets, which end \<open>_process_ec2_item\<close>.\<close>

definition ec2_health_block :: "acc \<Rightarrow> pydict \<Rightarrow> outcome" where
  "ec2_health_block s item =
     (let health_status = d_get_default item ''healthStatus'' (PStr ''Unknown'')
      in if hashable health_status
         then Ok (s\<lparr>ec2_health := c_incr (ec2_health s) health_status\<rparr>)
         else Raised TypeError s)"

definition ec2_patch_block :: "acc \<Rightarrow> pydict \<Rightarrow> outcome" where
  "ec2_patch_block s item =
     (case py_strip_lower (py_or (d_get item ''patchCompliance'') (PStr ''Unknown'')) of
        Inl e \<Rightarrow> Raised e s
      | Inr patch_status \<Rightarrow>
          Ok (if patch_status = ''compliant''
                then s\<lparr>ec2_patch_compliant := ec2_patch_compliant s + 1\<rparr>
              else if patch_status \<in> set [''noncompliant'', ''non_compliant'']
                then s\<lparr>ec2_patch_noncompliant := ec2_patch_noncompliant s + 1\<rparr>
              else s\<lparr>ec2_patch_unknown := ec2_patch_unknown s + 1\<rparr>))"

definition process_ec2_item :: "acc \<Rightarrow> pydict \<Rightarrow> outcome" where
  "process_ec2_item s item =
     (let s1 = s\<lparr>ec2_total := ec2_total s + 1\<rparr>
      in case py_lower (py_or (d_get item ''instanceState'') (PStr ''unknown'')) of
           Inl e \<Rightarrow> Raised e s1
         | Inr state \<Rightarrow>
             (let s2 = s1\<lparr>ec2_states := c_incr (ec2_states s1) (PStr state)\<rparr>
              in bind (bind (if state = ''running'' then ec2_running_block s2 item
                             else if state = ''stopped''
                               then Ok (s2\<lparr>ec2_stopped := ec2_stopped s2 + 1\<rparr>)
                             else Ok s2)
                         (\<lambda>s3. ec2_health_block s3 item))
                   (\<lambda>s4. ec2_patch_block s4 item)))"

definition process_rds_item :: "acc \<Rightarrow> pydict \<Rightarrow> outcome" where
  "process_rds_item s item =
     (let s1 = s\<lparr>rds_total := rds_total s + 1\<rparr>
      in case py_lower (py_or (d_get item ''status'') (PStr [])) of
           Inl e \<Rightarrow> Raised e s1
         | Inr status \<Rightarrow>
             (let s2 = (if status = ''available''
                        then s1\<lparr>rds_available := rds_available s1 + 1\<rparr> else s1);
                  engine = d_get_default item ''engine'' (PStr ''unknown'')
              in if \<not> hashable engine then Raised TypeError s2
                 else
                  (let s3 = s2\<lparr>rds_engines := c_incr (rds_engines s2) engine\<rparr>;
                       s4 = (if truthy (d_get item ''multiAZ'')
                             then s3\<lparr>rds_multiaz := rds_multiaz s3 + 1\<rparr> else s3)
                   in Ok (if truthy (d_get item ''performanceInsightsEnabled'')
                          then s4\<lparr>rds_performance_insights := rds_performance_insights s4 + 1\<rparr>
                          else s4))))"

definition process_s3_item :: "acc \<Rightarrow> pydict \<Rightarrow> acc" where
  "process_s3_item s item =
     (let s1 = s\<lparr>s3_total := s3_total s + 1\<rparr>
      in if truthy (d_get item ''hasLifecycleRules'')
         then s1\<lparr>s3_with_lifecycle := s3_with_lifecycle s1 + 1\<rparr> else s1)"

text \<open>
  The deduplication key of \<open>_process_ebs_item\<close>, \<open>(acc, reg, vid)\<close>, and its use as a set
  element: hashing the tuple hashes its three components.
\<close>

definition ebs_key :: "pydict \<Rightarrow> pyval \<times> pyval \<times> pyval" where
  "ebs_key item =
     (let vid = py_or (py_or (d_get item ''volumeId'') (d_get item ''id'')) (PStr ''unknown'');
          acc = py_or (d_get item ''accountId'') (PStr ''unknown'');
          reg = py_or (d_get item ''region'') (PStr ''unknown'')
      in (acc, reg, vid))"

fun key_hashable :: "pyval \<times> pyval \<times> pyval \<Rightarrow> bool" where
  "key_hashable (a, r, v) = (hashable a \<and> hashable r \<and> hashable v)"

fun key_repr :: "pyval \<times> pyval \<times> pyval \<Rightarrow> pyval \<times> pyval \<times> pyval" where
  "key_repr (a, r, v) = (hkey a, hkey r, hkey v)"

definition process_ebs_item :: "(string \<Rightarrow> pyval option) \<Rightarrow> acc \<Rightarrow> pydict \<Rightarrow> outcome" where
  "process_ebs_item json_loads s item =
     (let key = ebs_key item
      in if \<not> key_hashable key then Raised TypeError s
         else if key_repr key \<in> set (seen_ebs s) then Ok s
         else
          (let s1 = s\<lparr>seen_ebs := key_repr key # seen_ebs s\<rparr>;
               state = first_normalized item [''status'', ''state'', ''volumeStatus'', ''volumeState''];
               attachments = as_list_or_none json_loads
                 (py_or (py_or (d_get item ''attachments'') (d_get item ''attachedInstances''))
                        (d_get item ''attached_instances''))
           in if state = Some ''available'' then Ok (s1\<lparr>ebs_unattached := ebs_unattached s1 + 1\<rparr>)
              else if state \<in> set [Some ''in-use'', Some ''in_use''] then Ok s1
              else if state = None \<and> attachments = Some []
                then Ok (s1\<lparr>ebs_unattached := ebs_unattached s1 + 1\<rparr>)
              else Ok s1))"

definition process_eip_item :: "acc \<Rightarrow> pydict \<Rightarrow> acc" where
  "process_eip_item s item =
     (if \<not> truthy (d_get item ''instanceId'') \<and> \<not> truthy (d_get item ''networkInterfaceId'')
      then s\<lparr>eip_unassociated := eip_unassociated s + 1\<rparr> else s)"

definition process_sg_item :: "acc \<Rightarrow> pydict \<Rightarrow> acc" where
  "process_sg_item s item =
     (let s1 = s\<lparr>sg_total := sg_total s + 1\<rparr>
      in if truthy (d_get item ''hasExposedIngressPorts'')
         then s1\<lparr>sg_with_exposed_ports := sg_with_exposed_ports s1 + 1\<rparr> else s1)"

definition process_snapshot_item :: "acc \<Rightarrow> pydict \<Rightarrow> acc" where
  "process_snapshot_item s item = s"

subsection \<open>Adders\<close>

definition add_collected_region :: "acc \<Rightarrow> pyval \<Rightarrow> outcome" where
  "add_collected_region s region =
     (if truthy region
      then (if hashable region
            then Ok (s\<lparr>regions_collected := List.insert (hkey region) (regions_collected s)\<rparr>)
            else Raised TypeError s)
      else Ok s)"

text \<open>The global counters of \<open>add_resource\<close>: by type, by account, by region.\<close>

definition count_by_type :: "acc \<Rightarrow> pyval \<Rightarrow> outcome" where
  "count_by_type s resource_type =
     (if hashable resource_type
      then Ok (s\<lparr>resource_counts := c_incr (resource_counts s) resource_type\<rparr>)
      else Raised TypeError s)"

definition count_by_account :: "acc \<Rightarrow> pydict \<Rightarrow> outcome" where
  "count_by_account s item =
     (let account_id = d_get item ''accountId''
      in if truthy account_id then
           (if hashable account_id then
              (let s1 = s\<lparr>account_counts := c_incr (account_counts s) account_id\<rparr>;
                   account_name = d_get item ''accountName''
               in Ok (if truthy account_name
                      then s1\<lparr>account_names := d_set (account_names s1) account_id account_name\<rparr>
                      else s1))
            else Raised TypeError s)
         else Ok s)"

definition count_by_region :: "acc \<Rightarrow> pydict \<Rightarrow> outcome" where
  "count_by_region s item =
     (let region = d_get item ''region''
      in if truthy region \<and> region \<noteq> PStr ''global'' then
           (if hashable region
            then Ok (s\<lparr>region_counts := c_incr (region_counts s) region\<rparr>)
            else Raised TypeError s)
         else Ok s)"

text \<open>The chain of \<open>if\<close>/\<open>elif\<close> on the resource type that ends \<open>add_resource\<close>.\<close>

definition dispatch :: "(string \<Rightarrow> pyval option) \<Rightarrow> acc \<Rightarrow> pyval \<Rightarrow> pydict \<Rightarrow> outcome" where
  "dispatch json_loads s resource_type item =
     (if resource_type = PStr ''EC2Instance'' then process_ec2_item s item
      else if resource_type = PStr ''RDSInstance'' then process_rds_item s item
      else if resource_type = PStr ''S3Bucket'' then Ok (process_s3_item s item)
      else if resource_type = PStr ''EBSVolume'' then process_ebs_item json_loads s item
      else if resource_type = PStr ''ElasticIP'' then Ok (process_eip_item s item)
      else if resource_type = PStr ''SecurityGroup'' then Ok (process_sg_item s item)
      else if resource_type \<in> set [PStr ''EBSSnapshot'', PStr ''AMI'']
        then Ok (process_snapshot_item s item)
      else if resource_type = PStr ''VPC'' then Ok (s\<lparr>vpc_total := vpc_total s + 1\<rparr>)
      else if resource_type = PStr ''Subnet'' then Ok (s\<lparr>subnet_total := subnet_total s + 1\<rparr>)
      else if resource_type = PStr ''EFSFileSystem'' then Ok (s\<lparr>efs_total := efs_total s + 1\<rparr>)
      else if resource_type = PStr ''FSxFileSystem'' then Ok (s\<lparr>fsx_total := fsx_total s + 1\<rparr>)
      else if resource_type = PStr ''BackupPlan'' then Ok (s\<lparr>backup_plans := backup_plans s + 1\<rparr>)
      else if resource_type = PStr ''BackupVault''
        then Ok (s\<lparr>backup_vaults := backup_vaults s + 1\<rparr>)
      else if resource_type = PStr ''BackupRecoveryPoint''
        then Ok (s\<lparr>backup_recovery_points := backup_recovery_points s + 1\<rparr>)
      else Ok s)"

definition count_globals :: "acc \<Rightarrow> pyval \<Rightarrow> pydict \<Rightarrow> outcome" where
  "count_globals s resource_type item =
     bind (bind (count_by_type s resource_type) (\<lambda>s1. count_by_account s1 item))
          (\<lambda>s2. count_by_region s2 item)"

definition add_resource :: "(string \<Rightarrow> pyval option) \<Rightarrow> acc \<Rightarrow> pydict \<Rightarrow> outcome" where
  "add_resource json_loads s item =
     (let resource_type = d_get item ''resourceType''
      in if \<not> truthy resource_type then Ok s
         else bind (count_globals s resource_type item)
                   (\<lambda>s3. dispatch json_loads
                            (process_network_resource s3 resource_type item) resource_type item))"

text \<open>
  A run of the accumulator: the calls a caller makes on one instance. A caller that
  catches an exception goes on with the accumulator as the failed call left it.
\<close>

datatype call = AddResource pydict | AddCollectedRegion pyval | Reset

fun exec_call :: "(string \<Rightarrow> pyval option) \<Rightarrow> acc \<Rightarrow> call \<Rightarrow> outcome" where
  "exec_call json_loads s (AddResource item) = add_resource json_loads s item"
| "exec_call json_loads s (AddCollectedRegion region) = add_collected_region s region"
| "exec_call json_loads s Reset = Ok reset"

fun run :: "(string \<Rightarrow> pyval option) \<Rightarrow> acc \<Rightarrow> call list \<Rightarrow> acc" where
  "run json_loads s [] = s"
| "run json_loads s (c # cs) = run json_loads (state_of (exec_call json_loads s c)) cs"

subsection \<open>Output\<close>

text \<open>\<open>_build_network_health_metrics\<close>.\<close>

definition build_network_health_metrics :: "acc \<Rightarrow> pydict" where
  "build_network_health_metrics s =
     map (\<lambda>(key, bucket).
            (let total = nh_total bucket;
                 healthy = nh_healthy bucket;
                 unhealthy = max (total - healthy) 0
             in (PStr key,
                 PDict [(PStr ''total'', PInt total),
                        (PStr ''healthy'', PInt healthy),
                        (PStr ''unhealthy'', PInt unhealthy),
                        (PStr ''healthyPercentage'', PInt (safe_pct healthy total))])))
         (network_health s)"

text \<open>\<open>dict(c)\<close> of a counter, as a value.\<close>

definition counter_dict :: "counter \<Rightarrow> pyval" where
  "counter_dict c = PDict (map (\<lambda>(k, n). (k, PInt n)) c)"

text \<open>
  \<open>sorted(c.items(), key=lambda x: x[1], reverse=True)\<close>: by count, largest first, the
  entries of equal count in their order in \<open>c\<close>.
\<close>

definition sorted_by_count_desc :: "counter \<Rightarrow> counter" where
  "sorted_by_count_desc c = sort_key (\<lambda>(k, n). - n) c"

definition account_distribution :: "acc \<Rightarrow> pyval" where
  "account_distribution s =
     PList (map (\<lambda>(account_id, count).
                   PDict [(PStr ''accountId'', account_id),
                          (PStr ''accountName'',
                             (case d_lookup (account_names s) account_id of
                                None \<Rightarrow> account_id | Some name \<Rightarrow> name)),
                          (PStr ''count'', PInt count)])
                (sorted_by_count_desc (account_counts s)))"

definition region_distribution :: "acc \<Rightarrow> pyval" where
  "region_distribution s =
     PList (map (\<lambda>(region, count). PDict [(PStr ''region'', region), (PStr ''count'', PInt count)])
                (sorted_by_count_desc (region_counts s)))"

definition ec2_metrics :: "acc \<Rightarrow> pyval" where
  "ec2_metrics s =
     (if ec2_total s > 0 then
        PDict [
          (PStr ''total'', PInt (ec2_total s)),
          (PStr ''byState'', counter_dict (ec2_states s)),
          (PStr ''healthStatus'', counter_dict (ec2_health s)),
          (PStr ''cloudwatchAgent'', PDict [
             (PStr ''memoryMonitoring'', PInt (ec2_cw_memory s)),
             (PStr ''diskMonitoring'', PInt (ec2_cw_disk s)),
             (PStr ''bothEnabled'', PInt (ec2_cw_both s)),
             (PStr ''noneEnabled'',
                PInt (max (ec2_running s - max (ec2_cw_memory s) (ec2_cw_disk s)) 0)),
             (PStr ''percentageWithMemory'', PInt (safe_pct (ec2_cw_memory s) (ec2_running s))),
             (PStr ''percentageWithDisk'', PInt (safe_pct (ec2_cw_disk s) (ec2_running s)))]),
          (PStr ''ssmAgent'', PDict [
             (PStr ''connected'', PInt (ec2_ssm_connected s)),
             (PStr ''notConnected'', PInt (ec2_ssm_notconnected s)),
             (PStr ''notInstalled'', PInt (ec2_ssm_notinstalled s)),
             (PStr ''percentageConnected'', PInt (safe_pct (ec2_ssm_connected s) (ec2_running s)))]),
          (PStr ''patchCompliance'', PDict [
             (PStr ''compliant'', PInt (ec2_patch_compliant s)),
             (PStr ''nonCompliant'', PInt (ec2_patch_noncompliant s)),
             (PStr ''unknown'', PInt (ec2_patch_unknown s)),
             (PStr ''percentageCompliant'', PInt (safe_pct (ec2_patch_compliant s) (ec2_total s)))])]
      else PNone)"

definition rds_metrics :: "acc \<Rightarrow> pyval" where
  "rds_metrics s =
     (if rds_total s > 0 then
        PDict [
          (PStr ''total'', PInt (rds_total s)),
          (PStr ''available'', PInt (rds_available s)),
          (PStr ''engines'', counter_dict (rds_engines s)),
          (PStr ''multiAZ'', PInt (rds_multiaz s)),
          (PStr ''performanceInsights'', PInt (rds_performance_insights s)),
          (PStr ''percentageMultiAZ'', PInt (safe_pct (rds_multiaz s) (rds_total s))),
          (PStr ''percentageWithPerfInsights'',
             PInt (safe_pct (rds_performance_insights s) (rds_total s)))]
      else PNone)"

definition storage_metrics :: "acc \<Rightarrow> pyval" where
  "storage_metrics s =
     PDict [
       (PStr ''s3Buckets'', PInt (s3_total s)),
       (PStr ''s3WithLifecycle'', PInt (s3_with_lifecycle s)),
       (PStr ''s3WithoutLifecycle'', PInt (max (s3_total s - s3_with_lifecycle s) 0)),
       (PStr ''ebsVolumes'', PInt (c_get (resource_counts s) (PStr ''EBSVolume''))),
       (PStr ''ebsSnapshots'', PInt (c_get (resource_counts s) (PStr ''EBSSnapshot''))),
       (PStr ''amiSnapshots'', PInt (c_get (resource_counts s) (PStr ''AMI''))),
       (PStr ''efsFileSystems'', PInt (efs_total s)),
       (PStr ''fsxFileSystems'', PInt (fsx_total s)),
       (PStr ''backupPlans'', PInt (backup_plans s)),
       (PStr ''backupVaults'', PInt (backup_vaults s)),
       (PStr ''backupRecoveryPoints'', PInt (backup_recovery_points s))]"

definition unattached_metrics :: "acc \<Rightarrow> pyval" where
  "unattached_metrics s =
     PDict [
       (PStr ''unattachedEBSVolumes'', PInt (ebs_unattached s)),
       (PStr ''unassociatedElasticIPs'', PInt (eip_unassociated s))]"

definition security_metrics :: "acc \<Rightarrow> pyval" where
  "security_metrics s =
     PDict [
       (PStr ''securityGroups'', PInt (sg_total s)),
       (PStr ''exposedSecurityGroups'', PInt (sg_with_exposed_ports s)),
       (PStr ''percentageExposed'', PInt (safe_pct (sg_with_exposed_ports s) (sg_total s)))]"

definition global_metrics :: "acc \<Rightarrow> pydict" where
  "global_metrics s =
     d_set [
       (PStr ''totalResources'', PInt (sum_list (map snd (resource_counts s)))),
       (PStr ''resourceCounts'', counter_dict (resource_counts s)),
       (PStr ''accountDistribution'', account_distribution s),
       (PStr ''regionDistribution'', region_distribution s),
       (PStr ''regionsCollected'', PInt (int (length (regions_collected s)))),
       (PStr ''resourceRegionsFound'', PInt (int (length (region_counts s))))]
      (PStr ''networkHealth'') (PDict (build_network_health_metrics s))"

definition get_metrics :: "acc \<Rightarrow> pydict" where
  "get_metrics s =
     [(PStr ''global'', PDict (global_metrics s)),
      (PStr ''ec2'', ec2_metrics s),
      (PStr ''rds'', rds_metrics s),
      (PStr ''storage'', storage_metrics s),
      (PStr ''unattached'', unattached_metrics s),
      (PStr ''security'', security_metrics s),
      (PStr ''network'', PDict (build_network_health_metrics s))]"

section \<open>Flatten helper\<close>

text \<open>\<open>_sanitize_flat_key\<close>.\<close>

definition sanitize_flat_key :: "pyval \<Rightarrow> string" where
  "sanitize_flat_key key =
     (if key = PNone then ''unknown''
      else let text = py_str key;
               sanitized = map (\<lambda>ch. if is_alnum ch \<or> ch = CHR ''_'' then ch else CHR ''_'') text;
               stripped = strip_chars (\<lambda>ch. ch = CHR ''_'') sanitized
           in if stripped = [] then ''value'' else stripped)"

text \<open>
  \<open>flatten_metric\<close>. The loop over the items of \<open>data\<close> is the recursion on the list of
  its entries, with the target threaded through; \<open>flatten_list\<close> is the inner loop over
  \<open>enumerate(v)\<close>, from index \<open>i\<close> on.
\<close>

fun weight :: "pyval \<Rightarrow> nat" where
  "weight (PList xs) = Suc (sum_list (map (\<lambda>x. weight x + 2) xs))"
| "weight (PDict kvs) = Suc (sum_list (map (\<lambda>kv. weight (snd kv) + 1) kvs))"
| "weight v = 0"

function (sequential) flatten_metric :: "pydict \<Rightarrow> pydict \<Rightarrow> string \<Rightarrow> pydict"
  and flatten_list :: "pydict \<Rightarrow> string \<Rightarrow> nat \<Rightarrow> pyval list \<Rightarrow> pydict" where
  "flatten_metric target [] prefix = target"
| "flatten_metric target ((k, v) # rest) prefix =
     flatten_metric
       (let sanitized_key = sanitize_flat_key k;
            new_key = (if prefix \<noteq> [] then prefix @ ''_'' @ sanitized_key else sanitized_key)
        in case v of
             PDict d \<Rightarrow> flatten_metric target d new_key
           | PList xs \<Rightarrow> flatten_list target new_key 0 xs
           | _ \<Rightarrow> d_set target (PStr new_key) v)
       rest prefix"
| "flatten_list target new_key i [] = target"
| "flatten_list target new_key i (elem # elems) =
     flatten_list
       (let indexed_key = new_key @ ''_'' @ str_nat i
        in case elem of
             PDict d \<Rightarrow> flatten_metric target d indexed_key
           | PList l \<Rightarrow> flatten_metric target [(PStr (str_nat i), elem)] new_key
           | _ \<Rightarrow> d_set target (PStr indexed_key) elem)
       new_key (Suc i) elems"
  by pat_completeness auto
termination
  by (relation "measure (\<lambda>x. case x of
        Inl (target, data, prefix) \<Rightarrow> sum_list (map (\<lambda>kv. weight (snd kv) + 1) data)
      | Inr (target, new_key, i, elems) \<Rightarrow> sum_list (map (\<lambda>x. weight x + 2) elems))")
     auto

section \<open>Persistence\<close>

text \<open>
  \<open>int(x)\<close>: a string is stripped and read as an optional sign and decimal digits, which
  single underscores may group.
\<close>

fun adjacent_underscores :: "string \<Rightarrow> bool" where
  "adjacent_underscores (a # b # r) =
     ((a = CHR ''_'' \<and> b = CHR ''_'') \<or> adjacent_underscores (b # r))"
| "adjacent_underscores r = False"

definition parse_digits :: "string \<Rightarrow> nat option" where
  "parse_digits s =
     (if s = [] \<or> hd s = CHR ''_'' \<or> last s = CHR ''_'' \<or> adjacent_underscores s
         \<or> \<not> list_all (\<lambda>c. is_digit c \<or> c = CHR ''_'') s
      then None
      else Some (foldl (\<lambda>a c. 10 * a + (ord c - 48)) 0 (filter (\<lambda>c. c \<noteq> CHR ''_'') s)))"

definition parse_int :: "string \<Rightarrow> int option" where
  "parse_int s =
     (case s of
        [] \<Rightarrow> None
      | c # r \<Rightarrow>
          if c = CHR ''-'' then map_option (\<lambda>n. - int n) (parse_digits r)
          else if c = CHR ''+'' then map_option int (parse_digits r)
          else map_option int (parse_digits s))"

definition py_int :: "pyval \<Rightarrow> py_error + int" where
  "py_int v =
     (case v of
        PInt n \<Rightarrow> Inr n
      | PBool b \<Rightarrow> Inr (if b then 1 else 0)
      | PStr s \<Rightarrow> (case parse_int (strip s) of None \<Rightarrow> Inl ValueError | Some n \<Rightarrow> Inr n)
      | _ \<Rightarrow> Inl TypeError)"

fun ebind :: "py_error + 'a \<Rightarrow> ('a \<Rightarrow> py_error + 'b) \<Rightarrow> py_error + 'b" where
  "ebind (Inl e) f = Inl e"
| "ebind (Inr x) f = f x"

text \<open>\<open>x.get\<close> and \<open>x.items()\<close> need a dictionary; anything else raises \<open>AttributeError\<close>.\<close>

definition as_dict :: "pyval \<Rightarrow> py_error + pydict" where
  "as_dict v = (case v of PDict d \<Rightarrow> Inr d | _ \<Rightarrow> Inl AttributeError)"

text \<open>The explicit EC2 keys written before the flattened sections.\<close>

definition include_ec2_explicit :: "pydict \<Rightarrow> pydict \<Rightarrow> py_error + pydict" where
  "include_ec2_explicit dashboard_item metrics =
     (let ec2_section = d_get metrics ''ec2''
      in if truthy ec2_section then
           ebind (as_dict ec2_section) (\<lambda>ec2.
             let item1 = d_set dashboard_item (PStr ''ec2_byState'') (d_get_default ec2 ''byState'' (PDict []));
                 item2 = d_set item1 (PStr ''ec2_healthStatus'')
                           (d_get_default ec2 ''healthStatus'' (PDict []))
             in ebind (as_dict (py_or (d_get_default ec2 ''patchCompliance'' (PDict [])) (PDict [])))
                  (\<lambda>patch.
                    ebind (py_int (d_get_default patch ''compliant'' (PInt 0))) (\<lambda>c.
                    ebind (py_int (d_get_default patch ''nonCompliant'' (PInt 0))) (\<lambda>n.
                    ebind (py_int (d_get_default patch ''unknown'' (PInt 0))) (\<lambda>u.
                      Inr (d_set (d_set (d_set item2 (PStr ''ec2_ssm_compliant'') (PInt c))
                                        (PStr ''ec2_ssm_not_compliant'') (PInt n))
                                 (PStr ''ec2_ssm_unknown'') (PInt u)))))))
         else Inr dashboard_item)"

text \<open>The local function \<open>_include_section\<close>.\<close>

definition include_section :: "pydict \<Rightarrow> pydict \<Rightarrow> string \<Rightarrow> string \<Rightarrow> py_error + pydict" where
  "include_section dashboard_item metrics source_key prefix =
     (let section_payload = d_get metrics source_key
      in if truthy section_payload
         then ebind (as_dict section_payload)
                (\<lambda>payload. Inr (d_update dashboard_item (flatten_metric [] payload prefix)))
         else Inr dashboard_item)"

definition include_rds_explicit :: "pydict \<Rightarrow> pydict \<Rightarrow> py_error + pydict" where
  "include_rds_explicit dashboard_item metrics =
     (let rds_section = d_get metrics ''rds''
      in if truthy rds_section
         then ebind (as_dict rds_section)
                (\<lambda>rds. Inr (d_set dashboard_item (PStr ''rds_engines'')
                               (d_get_default rds ''engines'' (PDict []))))
         else Inr dashboard_item)"

text \<open>The two nested loops over the network health buckets and their metrics.\<close>

fun include_bucket_metrics :: "pydict \<Rightarrow> pyval \<Rightarrow> pydict \<Rightarrow> pydict" where
  "include_bucket_metrics dashboard_item bucket [] = dashboard_item"
| "include_bucket_metrics dashboard_item bucket ((metric_name, metric_value) # rest) =
     include_bucket_metrics
       (d_set dashboard_item
          (PStr (''networkHealth_'' @ sanitize_flat_key bucket @ ''_'' @ sanitize_flat_key metric_name))
          metric_value)
       bucket rest"

fun include_network_health :: "pydict \<Rightarrow> pydict \<Rightarrow> pydict" where
  "include_network_health dashboard_item [] = dashboard_item"
| "include_network_health dashboard_item ((bucket, vals) # rest) =
     include_network_health
       (case vals of
          PDict d \<Rightarrow> include_bucket_metrics dashboard_item bucket d
        | _ \<Rightarrow> dashboard_item)
       rest"

text \<open>
  The current item. The clock and \<open>format_aws_datetime\<close> are collaborators: the two date
  strings and the timestamp they give are parameters, as is the rounded duration
  \<open>round(float(processing_duration), 3)\<close>, a float.
\<close>

definition build_dashboard_item ::
  "string \<Rightarrow> string \<Rightarrow> pyval \<Rightarrow> pyval \<Rightarrow> pydict \<Rightarrow> py_error + pydict" where
  "build_dashboard_item date_str_iso date_str_br iso_timestamp duration metrics =
     (let item0 =
            [(PStr ''id'', PStr ''METRIC_DASHBOARD_CURRENT''),
             (PStr ''resourceType'', PStr ''METRICS_DASHBOARD''),
             (PStr ''accountId'', PStr ''GLOBAL''),
             (PStr ''accountName'', PStr ''Metrics Dashboard''),
             (PStr ''region'', PStr ''global''),
             (PStr ''metricDate'', PStr date_str_iso),
             (PStr ''metricDateKey'', PStr date_str_br),
             (PStr ''isMetric'', PBool True),
             (PStr ''createdAt'', iso_timestamp),
             (PStr ''updatedAt'', iso_timestamp),
             (PStr ''processingDurationSeconds'', duration)]
      in ebind (as_dict (py_or (d_get_default metrics ''global'' (PDict [])) (PDict []))) (\<lambda>g.
           let item1 = d_update item0
                 [(PStr ''accountDistribution'', d_get_default g ''accountDistribution'' (PList [])),
                  (PStr ''regionDistribution'', d_get_default g ''regionDistribution'' (PList []))];
               global_flat = flatten_metric []
                 [(PStr ''totalResources'', d_get_default g ''totalResources'' (PInt 0)),
                  (PStr ''resourceCounts'', d_get_default g ''resourceCounts'' (PDict [])),
                  (PStr ''regionsCollected'', d_get_default g ''regionsCollected'' (PInt 0)),
                  (PStr ''resourceRegionsFound'', d_get_default g ''resourceRegionsFound'' (PInt 0)),
                  (PStr ''networkHealth'', d_get_default g ''networkHealth'' (PDict []))] [];
               item2 = d_update item1 global_flat
           in ebind (include_ec2_explicit item2 metrics) (\<lambda>item3.
              ebind (include_section item3 metrics ''ec2'' ''ec2'') (\<lambda>item4.
              ebind (include_rds_explicit item4 metrics) (\<lambda>item5.
              ebind (include_section item5 metrics ''rds'' ''rds'') (\<lambda>item6.
              ebind (include_section item6 metrics ''storage'' ''storage'') (\<lambda>item7.
              ebind (include_section item7 metrics ''unattached'' ''unattached'') (\<lambda>item8.
              ebind (include_section item8 metrics ''security'' ''security'') (\<lambda>item9.
              ebind (as_dict (py_or (d_get_default g ''networkHealth'' (PDict [])) (PDict [])))
                (\<lambda>network_health. Inr (include_network_health item9 network_health)))))))))))"

text \<open>The archived item: a copy of the current one with three keys set.\<close>

definition make_dated_item :: "pydict \<Rightarrow> string \<Rightarrow> pydict" where
  "make_dated_item dashboard_item date_str_br =
     d_set (d_set (d_set dashboard_item (PStr ''id'') (PStr (''METRICS_DASHBOARD_'' @ date_str_br)))
                  (PStr ''isLatest'') (PBool False))
           (PStr ''isArchive'') (PBool True)"

text \<open>
  The loop over the tables. \<open>batch_write_to_dynamodb\<close> is a collaborator: \<open>batch_write\<close>
  takes the state of the world outside, the list of tables and the items, and gives the
  count it returns or the exception it raises (one derived from \<open>Exception\<close>, which the
  handler catches), with the new state of the world. The loop also records the calls it
  makes, each with its outcome.
\<close>

type_synonym ('w, 't, 'e) writer = "'w \<Rightarrow> 't list \<Rightarrow> pyval list \<Rightarrow> ('e + int) \<times> 'w"

fun save_loop ::
  "('w, 't, 'e) writer \<Rightarrow> pyval list \<Rightarrow> 't list \<Rightarrow> int \<Rightarrow> 'w \<Rightarrow> ('t \<times> ('e + int)) list
     \<Rightarrow> int \<times> 'w \<times> ('t \<times> ('e + int)) list" where
  "save_loop batch_write items_to_save [] total_saved w trace = (total_saved, w, trace)"
| "save_loop batch_write items_to_save (table # tables) total_saved w trace =
     (case batch_write w [table] items_to_save of
        (Inr count, w') \<Rightarrow>
          save_loop batch_write items_to_save tables count w' (trace @ [(table, Inr count)])
      | (Inl e, w') \<Rightarrow>
          save_loop batch_write items_to_save tables total_saved w' (trace @ [(table, Inl e)]))"

definition save_metrics_to_dynamodb ::
  "('w, 't, 'e) writer \<Rightarrow> string \<Rightarrow> string \<Rightarrow> pyval \<Rightarrow> pyval \<Rightarrow> 'w \<Rightarrow> 't list \<Rightarrow> pydict
     \<Rightarrow> py_error + (int \<times> 'w \<times> ('t \<times> ('e + int)) list)" where
  "save_metrics_to_dynamodb batch_write date_str_iso date_str_br iso_timestamp duration w
       metrics_tables metrics =
     ebind (build_dashboard_item date_str_iso date_str_br iso_timestamp duration metrics)
       (\<lambda>dashboard_item.
          let dated_item = make_dated_item dashboard_item date_str_br;
              items_to_save = [PDict dashboard_item, PDict dated_item]
          in Inr (save_loop batch_write items_to_save metrics_tables 0 w []))"

section \<open>Notions used in the properties\<close>

text \<open>The part of the accumulator that the EBS processor owns.\<close>

definition ebs_view :: "acc \<Rightarrow> int \<times> (pyval \<times> pyval \<times> pyval) list" where
  "ebs_view s = (ebs_unattached s, seen_ebs s)"

text \<open>The counters that only the EC2 processor changes.\<close>

definition ec2_nums :: "acc \<Rightarrow> (int \<times> int) \<times> (int \<times> int \<times> int) \<times> (int \<times> int \<times> int)" where
  "ec2_nums s =
     ((ec2_total s, ec2_running s),
      (ec2_ssm_connected s, ec2_ssm_notconnected s, ec2_ssm_notinstalled s),
      (ec2_patch_compliant s, ec2_patch_noncompliant s, ec2_patch_unknown s))"

definition ec2_view ::
  "acc \<Rightarrow> counter \<times> (int \<times> int) \<times> (int \<times> int \<times> int) \<times> (int \<times> int \<times> int)" where
  "ec2_view s = (ec2_states s, ec2_nums s)"






text \<open>
  A section of the snapshot is there when the value under its key is a dictionary;
  \<open>get_metrics\<close> stores \<open>None\<close> under the key of a section it leaves out.
\<close>

definition has_section :: "pydict \<Rightarrow> string \<Rightarrow> bool" where
  "has_section metrics k = (case d_get metrics k of PDict d \<Rightarrow> True | _ \<Rightarrow> False)"

text \<open>
  What the specification says of the persistence loop: the collaborator is called once
  for each table, in order, whatever the earlier calls gave; the result is the count of
  the last call that succeeded, and \<open>0\<close> when none did.
\<close>

fun write_each ::
  "('w, 't, 'e) writer \<Rightarrow> pyval list \<Rightarrow> 't list \<Rightarrow> 'w \<Rightarrow> ('t \<times> ('e + int)) list \<times> 'w" where
  "write_each batch_write items [] w = ([], w)"
| "write_each batch_write items (table # tables) w =
     (let (r, w') = batch_write w [table] items;
          (rs, w'') = write_each batch_write items tables w'
      in ((table, r) # rs, w''))"

definition successes :: "('e + int) list \<Rightarrow> int list" where
  "successes rs = concat (map (\<lambda>r. case r of Inl e \<Rightarrow> [] | Inr count \<Rightarrow> [count]) rs)"

definition last_successful_count :: "('e + int) list \<Rightarrow> int" where
  "last_successful_count rs = (if successes rs = [] then 0 else last (successes rs))"

text \<open>The percentage as the specification words it: \<open>round(100*n/d)\<close> on the exact quotient.\<close>

definition spec_percentage :: "int \<Rightarrow> int \<Rightarrow> int" where
  "spec_percentage n d = round_half_even (100 * of_int n / of_int d)"




text \<open>The two totals that decide which sections the snapshot holds.\<close>

definition totals :: "acc \<Rightarrow> int \<times> int" where
  "totals s = (ec2_total s, rds_total s)"

definition totals_le :: "int \<times> int \<Rightarrow> int \<times> int \<Rightarrow> bool" where
  "totals_le a b \<longleftrightarrow> fst a \<le> fst b \<and> snd a \<le> snd b"

section \<open>Properties\<close>

subsection \<open>Outcomes and views\<close>


lemma ebs_view_bind:
  "(\<And>s1. ebs_view (state_of (f s1)) = ebs_view s1) \<Longrightarrow>
   ebs_view (state_of (bind m f)) = ebs_view (state_of m)"
  by (cases m) auto

lemma ec2_view_bind:
  "(\<And>s1. ec2_view (state_of (f s1)) = ec2_view s1) \<Longrightarrow>
   ec2_view (state_of (bind m f)) = ec2_view (state_of m)"
  by (cases m) auto

lemmas str_eval = lower_def lower_char_def ascii_uppercase_def ascii_lowercase_def
  strip_def strip_chars_def is_space_def ord_def py_str_def

subsection \<open>What the stages of \<open>add_resource\<close> leave alone: the EBS part\<close>

lemma ebs_view_count_by_type: "ebs_view (state_of (count_by_type s rt)) = ebs_view s"
  by (simp add: count_by_type_def ebs_view_def)

lemma ebs_view_count_by_account: "ebs_view (state_of (count_by_account s item)) = ebs_view s"
  by (simp add: count_by_account_def ebs_view_def Let_def)

lemma ebs_view_count_by_region: "ebs_view (state_of (count_by_region s item)) = ebs_view s"
  by (simp add: count_by_region_def ebs_view_def Let_def)

lemma ebs_view_count_globals: "ebs_view (state_of (count_globals s rt item)) = ebs_view s"
  unfolding count_globals_def
  by (simp add: ebs_view_bind ebs_view_count_by_type ebs_view_count_by_account
      ebs_view_count_by_region)

lemma ebs_view_network: "ebs_view (process_network_resource s rt item) = ebs_view s"
  by (simp add: process_network_resource_def increment_network_health_def ebs_view_def)

lemma ebs_view_running: "ebs_view (state_of (ec2_running_block s item)) = ebs_view s"
  by (simp add: ec2_running_block_def ebs_view_def Let_def split: sum.splits)

lemma ebs_view_health: "ebs_view (state_of (ec2_health_block s item)) = ebs_view s"
  by (simp add: ec2_health_block_def ebs_view_def Let_def)

lemma ebs_view_patch: "ebs_view (state_of (ec2_patch_block s item)) = ebs_view s"
  by (simp add: ec2_patch_block_def ebs_view_def Let_def split: sum.splits)

lemma ebs_view_ec2: "ebs_view (state_of (process_ec2_item s item)) = ebs_view s"
  unfolding process_ec2_item_def Let_def
  by (simp add: ebs_view_bind ebs_view_health ebs_view_patch ebs_view_running split: sum.splits)
     (simp add: ebs_view_def)

lemma ebs_view_rds: "ebs_view (state_of (process_rds_item s item)) = ebs_view s"
  by (simp add: process_rds_item_def ebs_view_def Let_def split: sum.splits)

lemma ebs_view_dispatch_other:
  "rt \<noteq> PStr ''EBSVolume'' \<Longrightarrow> ebs_view (state_of (dispatch jl s rt item)) = ebs_view s"
  unfolding dispatch_def
  by (simp add: ebs_view_ec2 ebs_view_rds)
     (simp add: ebs_view_def process_s3_item_def process_eip_item_def process_sg_item_def
      process_snapshot_item_def Let_def)

text \<open>
  How a call of \<open>add_resource\<close> ends: it ignores the record, or an exception of the global
  counters stops it, or it reaches the dispatch; up to there the EBS part is untouched.
\<close>

lemma add_resource_cases:
  obtains (skipped) "state_of (add_resource jl s item) = s"
      "\<And>s'. add_resource jl s item = Ok s' \<Longrightarrow> \<not> truthy (d_get item ''resourceType'')"
  | (stopped) t where "state_of (add_resource jl s item) = t" "ebs_view t = ebs_view s"
      "\<And>s'. add_resource jl s item \<noteq> Ok s'"
  | (dispatched) s3 where "ebs_view s3 = ebs_view s"
      "add_resource jl s item = dispatch jl s3 (d_get item ''resourceType'') item"
proof (cases "truthy (d_get item ''resourceType'')")
  case False
  then show ?thesis using skipped by (simp add: add_resource_def Let_def)
next
  case True
  show ?thesis
  proof (cases "count_globals s (d_get item ''resourceType'') item")
    case (Ok s3)
    have "ebs_view s3 = ebs_view s"
      using ebs_view_count_globals[of s "d_get item ''resourceType''" item] Ok by simp
    then have "ebs_view (process_network_resource s3 (d_get item ''resourceType'') item) = ebs_view s"
      by (simp add: ebs_view_network)
    then show ?thesis using dispatched True Ok by (simp add: add_resource_def Let_def)
  next
    case (Raised e t)
    have "ebs_view t = ebs_view s"
      using ebs_view_count_globals[of s "d_get item ''resourceType''" item] Raised by simp
    then show ?thesis using stopped True Raised by (simp add: add_resource_def Let_def)
  qed
qed

subsection \<open>The EBS processor and its set of seen keys\<close>

lemma ebs_seen_unchanged:
  "key_repr (ebs_key item) \<in> set (seen_ebs s) \<Longrightarrow>
   ebs_view (state_of (process_ebs_item jl s item)) = ebs_view s"
  by (simp add: process_ebs_item_def Let_def)

lemma ebs_seen_mono:
  "set (seen_ebs s) \<subseteq> set (seen_ebs (state_of (process_ebs_item jl s item)))"
  by (auto simp add: process_ebs_item_def Let_def)

lemma ebs_processed_seen:
  "process_ebs_item jl s item = Ok s' \<Longrightarrow> key_repr (ebs_key item) \<in> set (seen_ebs s')"
  by (auto simp add: process_ebs_item_def Let_def split: if_splits)

lemma ebs_at_most_one:
  "ebs_unattached (state_of (process_ebs_item jl s item)) \<le> ebs_unattached s + 1"
  by (auto simp add: process_ebs_item_def Let_def)

lemma dispatch_seen_unchanged:
  assumes "key_repr (ebs_key item) \<in> set (seen_ebs s)"
  shows "ebs_view (state_of (dispatch jl s rt item)) = ebs_view s"
proof (cases "rt = PStr ''EBSVolume''")
  case True
  then show ?thesis using assms by (simp add: dispatch_def ebs_seen_unchanged)
next
  case False
  then show ?thesis by (rule ebs_view_dispatch_other)
qed

lemma dispatch_seen_mono:
  "set (seen_ebs s) \<subseteq> set (seen_ebs (state_of (dispatch jl s rt item)))"
proof (cases "rt = PStr ''EBSVolume''")
  case True
  then show ?thesis using ebs_seen_mono by (simp add: dispatch_def)
next
  case False
  from ebs_view_dispatch_other[OF this, of jl s item] show ?thesis by (simp add: ebs_view_def)
qed

lemma dispatch_at_most_one:
  "ebs_unattached (state_of (dispatch jl s rt item)) \<le> ebs_unattached s + 1"
proof (cases "rt = PStr ''EBSVolume''")
  case True
  then show ?thesis using ebs_at_most_one by (simp add: dispatch_def)
next
  case False
  from ebs_view_dispatch_other[OF this, of jl s item] show ?thesis by (simp add: ebs_view_def)
qed

lemma add_resource_seen_unchanged:
  assumes "key_repr (ebs_key item) \<in> set (seen_ebs s)"
  shows "ebs_view (state_of (add_resource jl s item)) = ebs_view s"
proof (cases rule: add_resource_cases[of jl s item])
  case skipped
  then show ?thesis by simp
next
  case (stopped t)
  then show ?thesis by simp
next
  case (dispatched s3)
  then have "key_repr (ebs_key item) \<in> set (seen_ebs s3)"
    using assms by (simp add: ebs_view_def)
  from dispatch_seen_unchanged[OF this] dispatched show ?thesis by simp
qed

lemma add_resource_seen_mono:
  "set (seen_ebs s) \<subseteq> set (seen_ebs (state_of (add_resource jl s item)))"
proof (cases rule: add_resource_cases[of jl s item])
  case skipped
  then show ?thesis by simp
next
  case (stopped t)
  then show ?thesis by (simp add: ebs_view_def)
next
  case (dispatched s3)
  then show ?thesis
    using dispatch_seen_mono[of s3 jl "d_get item ''resourceType''" item] by (simp add: ebs_view_def)
qed

lemma add_resource_at_most_one:
  "ebs_unattached (state_of (add_resource jl s item)) \<le> ebs_unattached s + 1"
proof (cases rule: add_resource_cases[of jl s item])
  case skipped
  then show ?thesis by simp
next
  case (stopped t)
  then show ?thesis by (simp add: ebs_view_def)
next
  case (dispatched s3)
  then show ?thesis
    using dispatch_at_most_one[of jl s3 "d_get item ''resourceType''" item] by (simp add: ebs_view_def)
qed

lemma add_resource_processed_seen:
  assumes "add_resource jl s item = Ok s'" "d_get item ''resourceType'' = PStr ''EBSVolume''"
  shows "key_repr (ebs_key item) \<in> set (seen_ebs s')"
proof (cases rule: add_resource_cases[of jl s item])
  case skipped
  from skipped(2)[OF assms(1)] assms(2) show ?thesis by simp
next
  case (stopped t)
  from stopped(3)[of s'] assms(1) show ?thesis by simp
next
  case (dispatched s3)
  then have "process_ebs_item jl s3 item = Ok s'" using assms by (simp add: dispatch_def)
  then show ?thesis by (rule ebs_processed_seen)
qed

lemma run_seen_mono:
  "Reset \<notin> set calls \<Longrightarrow> set (seen_ebs s) \<subseteq> set (seen_ebs (run jl s calls))"
proof (induction calls arbitrary: s)
  case Nil
  then show ?case by simp
next
  case (Cons c cs)
  have "set (seen_ebs s) \<subseteq> set (seen_ebs (state_of (exec_call jl s c)))"
  proof (cases c)
    case (AddResource item)
    then show ?thesis using add_resource_seen_mono by simp
  next
    case (AddCollectedRegion r)
    then show ?thesis by (simp add: add_collected_region_def)
  next
    case Reset
    then show ?thesis using Cons.prems by simp
  qed
  moreover have "set (seen_ebs (state_of (exec_call jl s c))) \<subseteq> set (seen_ebs (run jl s (c # cs)))"
    using Cons.IH[of "state_of (exec_call jl s c)"] Cons.prems by simp
  ultimately show ?case by blast
qed

lemmas add_resource_eval = add_resource_def d_get_def d_get_default_def count_globals_def
  count_by_type_def count_by_account_def count_by_region_def reset_def dispatch_def
  process_network_resource_def process_ebs_item_def ebs_key_def py_or_def normalize_state_def
  as_list_or_none_def add_collected_region_def Let_def

text \<open>
  Claim C1. Once \<open>add_resource\<close> has processed an EBS volume record \<open>a\<close>, then after any
  further calls on the accumulator other than \<open>reset\<close>, a call of \<open>add_resource\<close> with a
  record \<open>b\<close> of the same deduplication key leaves the counter of unattached volumes as
  it is; and feeding the record \<open>a\<close> a second time leaves the counter at most one above
  its value before the first call.
\<close>

theorem ebs_counted_once:
  assumes "d_get a ''resourceType'' = PStr ''EBSVolume''"
    and "add_resource json_loads s a = Ok s1"
    and "Reset \<notin> set calls"
    and "key_repr (ebs_key b) = key_repr (ebs_key a)"
  shows "ebs_unattached (state_of (add_resource json_loads (run json_loads s1 calls) b))
           = ebs_unattached (run json_loads s1 calls)
       \<and> ebs_unattached (state_of (add_resource json_loads s1 a)) \<le> ebs_unattached s + 1"
proof -
  have seen: "key_repr (ebs_key a) \<in> set (seen_ebs s1)"
    using add_resource_processed_seen assms(2,1) by blast
  then have "key_repr (ebs_key b) \<in> set (seen_ebs (run json_loads s1 calls))"
    using run_seen_mono[OF assms(3), of s1 json_loads] assms(4) by auto
  from add_resource_seen_unchanged[OF this]
  have first: "ebs_unattached (state_of (add_resource json_loads (run json_loads s1 calls) b))
      = ebs_unattached (run json_loads s1 calls)"
    by (simp add: ebs_view_def)
  from add_resource_seen_unchanged[OF seen]
  have "ebs_unattached (state_of (add_resource json_loads s1 a)) = ebs_unattached s1"
    by (simp add: ebs_view_def)
  moreover have "ebs_unattached s1 \<le> ebs_unattached s + 1"
    using add_resource_at_most_one[of json_loads s a] assms(2) by simp
  ultimately show ?thesis using first by simp
qed

theorem ebs_counted_once_witness:
  "d_get [(PStr ''resourceType'', PStr ''EBSVolume''), (PStr ''volumeId'', PStr ''vol-1''),
          (PStr ''status'', PStr ''available'')] ''resourceType'' = PStr ''EBSVolume''
   \<and> (\<exists>s1. add_resource (\<lambda>x. None) reset
              [(PStr ''resourceType'', PStr ''EBSVolume''), (PStr ''volumeId'', PStr ''vol-1''),
               (PStr ''status'', PStr ''available'')] = Ok s1
          \<and> ebs_unattached s1 = 1
          \<and> Reset \<notin> set [AddCollectedRegion (PStr ''eu-west-1'')]
          \<and> ebs_unattached (state_of (add_resource (\<lambda>x. None)
                (run (\<lambda>x. None) s1 [AddCollectedRegion (PStr ''eu-west-1'')])
                [(PStr ''resourceType'', PStr ''EBSVolume''), (PStr ''volumeId'', PStr ''vol-1''),
                 (PStr ''status'', PStr ''available'')]))
             = ebs_unattached (run (\<lambda>x. None) s1 [AddCollectedRegion (PStr ''eu-west-1'')])
          \<and> ebs_unattached (run (\<lambda>x. None) s1 [AddCollectedRegion (PStr ''eu-west-1'')]) = 1)"
proof -
  let ?a = "[(PStr ''resourceType'', PStr ''EBSVolume''), (PStr ''volumeId'', PStr ''vol-1''),
             (PStr ''status'', PStr ''available'')]"
  let ?jl = "\<lambda>x::string. None::pyval option"
  have h1: "d_get ?a ''resourceType'' = PStr ''EBSVolume''"
    by (simp add: d_get_def)
  obtain s1 where h2: "add_resource ?jl reset ?a = Ok s1" and u: "ebs_unattached s1 = 1"
    by (simp add: add_resource_eval str_eval)
  have h3: "Reset \<notin> set [AddCollectedRegion (PStr ''eu-west-1'')]"
    by simp
  have r: "ebs_unattached (run ?jl s1 [AddCollectedRegion (PStr ''eu-west-1'')]) = 1"
    using u by (simp add: add_collected_region_def)
  from ebs_counted_once[OF h1 h2 h3 refl] h1 h2 u h3 r show ?thesis
    by blast
qed

text \<open>
  Claim C2. A new EBS volume record with no state field and \<open>attachments = []\<close> is not
  counted as unattached, though the source's comment says that an explicit empty list
  of attachments counts: the chain \<open>item.get('attachments') or ... or
  item.get('attached_instances')\<close> drops the empty list, which is falsy, and yields
  \<open>None\<close>. The same empty list under the last key of the chain, \<open>attached_instances\<close>, is
  counted; a list of one attachment is not counted.
\<close>

theorem ebs_empty_attachments_not_counted:
  "(\<exists>s'. add_resource json_loads reset
            [(PStr ''resourceType'', PStr ''EBSVolume''), (PStr ''volumeId'', PStr ''vol-1''),
             (PStr ''attachments'', PList [])] = Ok s' \<and> ebs_unattached s' = 0)
   \<and> (\<exists>s'. add_resource json_loads reset
            [(PStr ''resourceType'', PStr ''EBSVolume''), (PStr ''volumeId'', PStr ''vol-1''),
             (PStr ''attached_instances'', PList [])] = Ok s' \<and> ebs_unattached s' = 1)
   \<and> (\<exists>s'. add_resource json_loads reset
            [(PStr ''resourceType'', PStr ''EBSVolume''), (PStr ''volumeId'', PStr ''vol-1''),
             (PStr ''attachments'', PList [PDict [(PStr ''instanceId'', PStr ''i-1'')]])] = Ok s'
          \<and> ebs_unattached s' = 0)"
  by (simp add: add_resource_eval)

subsection \<open>Direct Connect virtual interfaces\<close>

text \<open>
  Claim C3, as the specification states it, fails: with \<open>bgpAllUp = false\<close> the interface is
  unhealthy though a peer reports \<open>up\<close>.
\<close>

theorem bgp_all_up_false_counterexample:
  "\<not> is_direct_connect_virtual_interface_healthy
       [(PStr ''bgpAllUp'', PBool False),
        (PStr ''bgpPeers'', PList [PDict [(PStr ''bgpStatus'', PStr ''up'')]])]"
  by (simp add: is_direct_connect_virtual_interface_healthy_def d_get_def)

text \<open>
  Claim C3, amended. A boolean \<open>bgpAllUp\<close> is the verdict, whatever \<open>bgpPeers\<close> and the
  other fields hold: \<open>false\<close> gives unhealthy, \<open>true\<close> gives healthy, and the bucket of the
  virtual interfaces is incremented with that verdict.
\<close>

theorem bgp_all_up_decides:
  assumes "d_get item ''bgpAllUp'' = PBool b"
  shows "is_direct_connect_virtual_interface_healthy item = b
       \<and> process_network_resource s (PStr ''DirectConnectVirtualInterface'') item
           = increment_network_health s ''directConnectVirtualInterfaces'' b"
proof -
  have "item \<noteq> []" using assms by (auto simp: d_get_def)
  then have "is_direct_connect_virtual_interface_healthy item = b"
    using assms by (simp add: is_direct_connect_virtual_interface_healthy_def)
  then show ?thesis by (simp add: process_network_resource_def)
qed

theorem bgp_all_up_decides_witness:
  "d_get [(PStr ''bgpAllUp'', PBool True),
          (PStr ''bgpPeers'', PList [PDict [(PStr ''bgpStatus'', PStr ''down'')]])] ''bgpAllUp''
     = PBool True
   \<and> is_direct_connect_virtual_interface_healthy
        [(PStr ''bgpAllUp'', PBool True),
         (PStr ''bgpPeers'', PList [PDict [(PStr ''bgpStatus'', PStr ''down'')]])]
   \<and> nh_healthy (the (map_of (network_health (process_network_resource reset
        (PStr ''DirectConnectVirtualInterface'')
        [(PStr ''bgpAllUp'', PBool True),
         (PStr ''bgpPeers'', PList [PDict [(PStr ''bgpStatus'', PStr ''down'')]])]))
        ''directConnectVirtualInterfaces'')) = 1"
proof -
  let ?item = "[(PStr ''bgpAllUp'', PBool True),
                (PStr ''bgpPeers'', PList [PDict [(PStr ''bgpStatus'', PStr ''down'')]])]"
  have h: "d_get ?item ''bgpAllUp'' = PBool True"
    by (simp add: d_get_def)
  from bgp_all_up_decides[OF h, of reset] h show ?thesis
    by (simp add: increment_network_health_def reset_def)
qed

subsection \<open>The EC2 processor\<close>

lemma ec2_view_count_by_type: "ec2_view (state_of (count_by_type s rt)) = ec2_view s"
  by (simp add: count_by_type_def ec2_view_def ec2_nums_def)

lemma ec2_view_count_by_account: "ec2_view (state_of (count_by_account s item)) = ec2_view s"
  by (simp add: count_by_account_def ec2_view_def ec2_nums_def Let_def)

lemma ec2_view_count_by_region: "ec2_view (state_of (count_by_region s item)) = ec2_view s"
  by (simp add: count_by_region_def ec2_view_def ec2_nums_def Let_def)

lemma ec2_view_count_globals: "ec2_view (state_of (count_globals s rt item)) = ec2_view s"
  unfolding count_globals_def
  by (simp add: ec2_view_bind ec2_view_count_by_type ec2_view_count_by_account ec2_view_count_by_region)

lemma ec2_view_network: "ec2_view (process_network_resource s rt item) = ec2_view s"
  by (simp add: process_network_resource_def increment_network_health_def ec2_view_def ec2_nums_def)




lemma count_globals_Ok:
  assumes "hashable rt" "hashable (d_get item ''accountId'')" "hashable (d_get item ''region'')"
  shows "\<exists>s3. count_globals s rt item = Ok s3"
  using assms
  by (simp add: count_globals_def count_by_type_def count_by_account_def count_by_region_def Let_def)

lemma c_get_c_incr: "c_get (c_incr c k) k' = (if hkey k = hkey k' then c_get c k' + 1 else c_get c k')"
  by (induction c) auto

lemma lower_examples: "lower ''running'' = ''running''" "lower ''Online'' = ''online''"
  "lower (strip ''Compliant'') = ''compliant''"
  by (simp_all add: str_eval)

lemma ec2_example:
  assumes "d_get item ''instanceState'' = PStr ''running''"
    and "d_get item ''ssmStatus'' = PStr ''Online''"
    and "d_get item ''patchCompliance'' = PStr ''Compliant''"
    and "hashable (d_get_default item ''healthStatus'' (PStr ''Unknown''))"
  shows "\<exists>s'. process_ec2_item s item = Ok s' \<and>
     c_get (ec2_states s') (PStr ''running'') = c_get (ec2_states s) (PStr ''running'') + 1 \<and>
     ec2_ssm_connected s' = ec2_ssm_connected s + 1 \<and>
     ec2_patch_compliant s' = ec2_patch_compliant s + 1"
  using assms
  by (simp add: process_ec2_item_def ec2_running_block_def ec2_health_block_def ec2_patch_block_def
      py_lower_def py_strip_lower_def py_or_def lower_examples Let_def c_get_c_incr)

text \<open>
  Claim C5. For an EC2 instance record with \<open>instanceState = "running"\<close>,
  \<open>ssmStatus = "Online"\<close> and \<open>patchCompliance = "Compliant"\<close>, whose account, region
  and health status are hashable values (anything but a list or a dictionary, which
  cannot be the key of a counter), one call of \<open>add_resource\<close> returns and raises the
  \<open>running\<close> count of the state histogram, the connected SSM counter and the compliant
  patch counter by one each.
\<close>

theorem ec2_running_online_compliant:
  assumes "d_get item ''resourceType'' = PStr ''EC2Instance''"
    and "d_get item ''instanceState'' = PStr ''running''"
    and "d_get item ''ssmStatus'' = PStr ''Online''"
    and "d_get item ''patchCompliance'' = PStr ''Compliant''"
    and "hashable (d_get item ''accountId'')"
    and "hashable (d_get item ''region'')"
    and "hashable (d_get_default item ''healthStatus'' (PStr ''Unknown''))"
  shows "\<exists>s'. add_resource json_loads s item = Ok s'
     \<and> c_get (ec2_states s') (PStr ''running'') = c_get (ec2_states s) (PStr ''running'') + 1
     \<and> ec2_ssm_connected s' = ec2_ssm_connected s + 1
     \<and> ec2_patch_compliant s' = ec2_patch_compliant s + 1"
proof -
  let ?rt = "PStr ''EC2Instance''"
  obtain s3 where g: "count_globals s ?rt item = Ok s3"
    using count_globals_Ok[of ?rt item s] assms(5,6) by auto
  have v: "ec2_view (process_network_resource s3 ?rt item) = ec2_view s"
    using ec2_view_count_globals[of s ?rt item] g by (simp add: ec2_view_network)
  let ?s4 = "process_network_resource s3 ?rt item"
  obtain s' where p: "process_ec2_item ?s4 item = Ok s'"
    and "c_get (ec2_states s') (PStr ''running'') = c_get (ec2_states ?s4) (PStr ''running'') + 1"
    and "ec2_ssm_connected s' = ec2_ssm_connected ?s4 + 1"
    and "ec2_patch_compliant s' = ec2_patch_compliant ?s4 + 1"
    using ec2_example[OF assms(2,3,4,7), of ?s4] by blast
  moreover have "add_resource json_loads s item = Ok s'"
    using assms(1) g p by (simp add: add_resource_def dispatch_def Let_def)
  ultimately show ?thesis using v by (auto simp: ec2_view_def ec2_nums_def)
qed


theorem ec2_running_online_compliant_witness:
  "d_get [(PStr ''resourceType'', PStr ''EC2Instance''), (PStr ''instanceState'', PStr ''running''),
          (PStr ''ssmStatus'', PStr ''Online''), (PStr ''patchCompliance'', PStr ''Compliant''),
          (PStr ''accountId'', PStr ''123456789012''), (PStr ''region'', PStr ''us-east-1'')]
     ''resourceType'' = PStr ''EC2Instance''
   \<and> hashable (d_get [(PStr ''resourceType'', PStr ''EC2Instance''),
          (PStr ''instanceState'', PStr ''running''),
          (PStr ''ssmStatus'', PStr ''Online''), (PStr ''patchCompliance'', PStr ''Compliant''),
          (PStr ''accountId'', PStr ''123456789012''), (PStr ''region'', PStr ''us-east-1'')]
     ''accountId'')
   \<and> (\<exists>s'. add_resource (\<lambda>x. None) reset
        [(PStr ''resourceType'', PStr ''EC2Instance''), (PStr ''instanceState'', PStr ''running''),
         (PStr ''ssmStatus'', PStr ''Online''), (PStr ''patchCompliance'', PStr ''Compliant''),
         (PStr ''accountId'', PStr ''123456789012''), (PStr ''region'', PStr ''us-east-1'')] = Ok s'
      \<and> c_get (ec2_states s') (PStr ''running'') = 1
      \<and> ec2_ssm_connected s' = 1
      \<and> ec2_patch_compliant s' = 1)"
proof -
  let ?item = "[(PStr ''resourceType'', PStr ''EC2Instance''),
     (PStr ''instanceState'', PStr ''running''),
     (PStr ''ssmStatus'', PStr ''Online''), (PStr ''patchCompliance'', PStr ''Compliant''),
     (PStr ''accountId'', PStr ''123456789012''), (PStr ''region'', PStr ''us-east-1'')]"
  have h1: "d_get ?item ''resourceType'' = PStr ''EC2Instance''"
    and h2: "d_get ?item ''instanceState'' = PStr ''running''"
    and h3: "d_get ?item ''ssmStatus'' = PStr ''Online''"
    and h4: "d_get ?item ''patchCompliance'' = PStr ''Compliant''"
    and h5: "hashable (d_get ?item ''accountId'')"
    and h6: "hashable (d_get ?item ''region'')"
    and h7: "hashable (d_get_default ?item ''healthStatus'' (PStr ''Unknown''))"
    by (simp_all add: d_get_def d_get_default_def)
  from ec2_running_online_compliant[OF h1 h2 h3 h4 h5 h6 h7, of "\<lambda>x. None" reset] h1 h5
  show ?thesis by (simp add: reset_def)
qed

subsection \<open>The EC2 buckets\<close>
























lemmas ec2_eval = process_ec2_item_def ec2_running_block_def ec2_health_block_def
  ec2_patch_block_def py_lower_def py_strip_lower_def


subsection \<open>The snapshot\<close>

lemma totals_bind:
  "(\<And>s1. totals (state_of (f s1)) = totals s1) \<Longrightarrow>
   totals (state_of (bind m f)) = totals (state_of m)"
  by (cases m) auto

lemma totals_count_by_type: "totals (state_of (count_by_type s rt)) = totals s"
  by (simp add: count_by_type_def totals_def)

lemma totals_count_by_account: "totals (state_of (count_by_account s item)) = totals s"
  by (simp add: count_by_account_def totals_def Let_def)

lemma totals_count_by_region: "totals (state_of (count_by_region s item)) = totals s"
  by (simp add: count_by_region_def totals_def Let_def)

lemma totals_count_globals: "totals (state_of (count_globals s rt item)) = totals s"
  unfolding count_globals_def
  by (simp add: totals_bind totals_count_by_type totals_count_by_account totals_count_by_region)

lemma totals_network: "totals (process_network_resource s rt item) = totals s"
  by (simp add: process_network_resource_def increment_network_health_def totals_def)

lemma totals_running: "totals (state_of (ec2_running_block s item)) = totals s"
  by (simp add: ec2_running_block_def totals_def Let_def split: sum.splits)

lemma totals_health: "totals (state_of (ec2_health_block s item)) = totals s"
  by (simp add: ec2_health_block_def totals_def Let_def)

lemma totals_patch: "totals (state_of (ec2_patch_block s item)) = totals s"
  by (simp add: ec2_patch_block_def totals_def Let_def split: sum.splits)

lemma totals_ec2: "totals (state_of (process_ec2_item s item)) = (ec2_total s + 1, rds_total s)"
  unfolding process_ec2_item_def Let_def
  by (simp add: totals_bind totals_health totals_patch totals_running split: sum.splits)
     (simp add: totals_def)

lemma totals_rds: "totals (state_of (process_rds_item s item)) = (ec2_total s, rds_total s + 1)"
  by (simp add: process_rds_item_def totals_def Let_def split: sum.splits)

lemma totals_ebs: "totals (state_of (process_ebs_item jl s item)) = totals s"
  by (simp add: process_ebs_item_def totals_def Let_def)

lemma totals_dispatch:
  "totals (state_of (dispatch jl s rt item)) =
     (if rt = PStr ''EC2Instance'' then (ec2_total s + 1, rds_total s)
      else if rt = PStr ''RDSInstance'' then (ec2_total s, rds_total s + 1)
      else totals s)"
  unfolding dispatch_def
  by (simp add: totals_ec2 totals_rds totals_ebs)
     (simp add: totals_def process_s3_item_def process_eip_item_def process_sg_item_def
      process_snapshot_item_def Let_def)

lemma totals_dispatch_le:
  "totals_le (totals s) (totals (state_of (dispatch jl s rt item)))"
  by (simp add: totals_dispatch totals_le_def) (simp add: totals_def)

lemma totals_add_resource:
  "totals_le (totals s) (totals (state_of (add_resource jl s item)))"
proof (cases "truthy (d_get item ''resourceType'')")
  case False
  then show ?thesis by (simp add: add_resource_def Let_def totals_le_def)
next
  case True
  show ?thesis
  proof (cases "count_globals s (d_get item ''resourceType'') item")
    case (Ok s3)
    have e: "totals s3 = totals s"
      using totals_count_globals[of s "d_get item ''resourceType''" item] Ok by simp
    define s4 where "s4 = process_network_resource s3 (d_get item ''resourceType'') item"
    have "totals s4 = totals s" using e by (simp add: s4_def totals_network)
    with totals_dispatch_le[of s4 jl "d_get item ''resourceType''" item]
    have "totals_le (totals s) (totals (state_of (dispatch jl s4 (d_get item ''resourceType'') item)))"
      by simp
    moreover have "add_resource jl s item = dispatch jl s4 (d_get item ''resourceType'') item"
      using True Ok by (simp add: add_resource_def Let_def s4_def)
    ultimately show ?thesis by simp
  next
    case (Raised e t)
    have "totals t = totals s"
      using totals_count_globals[of s "d_get item ''resourceType''" item] Raised by simp
    then show ?thesis using True Raised by (simp add: add_resource_def Let_def totals_le_def)
  qed
qed

lemma totals_nonneg_run:
  "0 \<le> ec2_total s \<and> 0 \<le> rds_total s \<Longrightarrow>
   0 \<le> ec2_total (run jl s calls) \<and> 0 \<le> rds_total (run jl s calls)"
proof (induction calls arbitrary: s)
  case Nil
  then show ?case by simp
next
  case (Cons c cs)
  have "0 \<le> ec2_total (state_of (exec_call jl s c)) \<and> 0 \<le> rds_total (state_of (exec_call jl s c))"
  proof (cases c)
    case (AddResource item)
    then show ?thesis using totals_add_resource[of s jl item] Cons.prems
      by (simp add: totals_le_def totals_def)
  next
    case (AddCollectedRegion r)
    then show ?thesis using Cons.prems by (simp add: add_collected_region_def)
  next
    case Reset
    then show ?thesis by (simp add: reset_def)
  qed
  from Cons.IH[OF this] show ?case by simp
qed

lemma has_ec2: "has_section (get_metrics s) ''ec2'' \<longleftrightarrow> 0 < ec2_total s"
  by (simp add: has_section_def get_metrics_def d_get_def ec2_metrics_def)

lemma has_rds: "has_section (get_metrics s) ''rds'' \<longleftrightarrow> 0 < rds_total s"
  by (simp add: has_section_def get_metrics_def d_get_def rds_metrics_def)

lemma none_ec2: "\<not> 0 < ec2_total s \<Longrightarrow> d_lookup (get_metrics s) (PStr ''ec2'') = Some PNone"
  by (simp add: get_metrics_def ec2_metrics_def)

lemma none_rds: "\<not> 0 < rds_total s \<Longrightarrow> d_lookup (get_metrics s) (PStr ''rds'') = Some PNone"
  by (simp add: get_metrics_def rds_metrics_def)

lemma has_always:
  "has_section (get_metrics s) ''global''" "has_section (get_metrics s) ''storage''"
  "has_section (get_metrics s) ''unattached''" "has_section (get_metrics s) ''security''"
  "has_section (get_metrics s) ''network''"
  by (simp_all add: has_section_def get_metrics_def d_get_def storage_metrics_def
      unattached_metrics_def security_metrics_def)

text \<open>
  Claim C6. In every state the accumulator reaches from \<open>reset\<close> by calls of its
  methods, the snapshot of \<open>get_metrics\<close> holds the EC2 section exactly when the EC2
  total is not zero, and the RDS section exactly when the RDS total is not zero; a
  section that is left out is \<open>None\<close> under its key. The global, storage, unattached,
  security and network sections are always there.
\<close>

theorem snapshot_sections:
  assumes "s = run json_loads reset calls"
  shows "(has_section (get_metrics s) ''ec2'' \<longleftrightarrow> ec2_total s \<noteq> 0)
       \<and> (has_section (get_metrics s) ''rds'' \<longleftrightarrow> rds_total s \<noteq> 0)
       \<and> (ec2_total s = 0 \<longrightarrow> d_lookup (get_metrics s) (PStr ''ec2'') = Some PNone)
       \<and> (rds_total s = 0 \<longrightarrow> d_lookup (get_metrics s) (PStr ''rds'') = Some PNone)
       \<and> has_section (get_metrics s) ''global''
       \<and> has_section (get_metrics s) ''storage''
       \<and> has_section (get_metrics s) ''unattached''
       \<and> has_section (get_metrics s) ''security''
       \<and> has_section (get_metrics s) ''network''"
proof -
  have "0 \<le> ec2_total reset \<and> 0 \<le> rds_total reset"
    by (simp add: reset_def)
  from totals_nonneg_run[OF this, of json_loads calls] assms
  have n: "0 \<le> ec2_total s" "0 \<le> rds_total s" by simp_all
  from n(1) have "has_section (get_metrics s) ''ec2'' \<longleftrightarrow> ec2_total s \<noteq> 0"
    by (auto simp: has_ec2)
  moreover from n(2) have "has_section (get_metrics s) ''rds'' \<longleftrightarrow> rds_total s \<noteq> 0"
    by (auto simp: has_rds)
  moreover have "ec2_total s = 0 \<longrightarrow> d_lookup (get_metrics s) (PStr ''ec2'') = Some PNone"
    using none_ec2[of s] by simp
  moreover have "rds_total s = 0 \<longrightarrow> d_lookup (get_metrics s) (PStr ''rds'') = Some PNone"
    using none_rds[of s] by simp
  ultimately show ?thesis using has_always[of s] by simp
qed

theorem snapshot_sections_witness:
  "\<exists>s. s = run (\<lambda>x. None) reset
          [AddResource [(PStr ''resourceType'', PStr ''EC2Instance''),
                        (PStr ''instanceState'', PStr ''running'')]]
     \<and> ec2_total s = 1 \<and> rds_total s = 0
     \<and> has_section (get_metrics s) ''ec2''
     \<and> \<not> has_section (get_metrics s) ''rds''
     \<and> d_lookup (get_metrics s) (PStr ''rds'') = Some PNone
     \<and> has_section (get_metrics s) ''global''"
proof -
  let ?s = "run (\<lambda>x. None) reset
          [AddResource [(PStr ''resourceType'', PStr ''EC2Instance''),
                        (PStr ''instanceState'', PStr ''running'')]]"
  have t: "ec2_total ?s = 1" "rds_total ?s = 0"
    by (simp_all add: add_resource_eval ec2_eval str_eval)
  from snapshot_sections[OF refl, of "\<lambda>x. None"
      "[AddResource [(PStr ''resourceType'', PStr ''EC2Instance''),
                     (PStr ''instanceState'', PStr ''running'')]]"] t
  show ?thesis by simp
qed

subsection \<open>Flattening\<close>




subsection \<open>Persistence\<close>

lemma save_loop_write_each:
  "save_loop bw items tables tot w trace =
     (let rs = fst (write_each bw items tables w)
      in (if successes (map snd rs) = [] then tot else last (successes (map snd rs)),
          snd (write_each bw items tables w), trace @ rs))"
proof (induction tables arbitrary: tot w trace)
  case Nil
  then show ?case by (simp add: successes_def)
next
  case (Cons t ts)
  obtain r w' where b: "bw w [t] items = (r, w')" by (cases "bw w [t] items")
  obtain rs w'' where e: "write_each bw items ts w' = (rs, w'')" by (cases "write_each bw items ts w'")
  show ?case
  proof (cases r)
    case (Inl x)
    then show ?thesis using b e Cons.IH[of tot w' "trace @ [(t, Inl x)]"]
      by (simp add: successes_def Let_def)
  next
    case (Inr c)
    then show ?thesis using b e Cons.IH[of c w' "trace @ [(t, Inr c)]"]
      by (simp add: successes_def Let_def)
  qed
qed

lemma write_each_tables: "map fst (fst (write_each bw items tables w)) = tables"
proof (induction tables arbitrary: w)
  case Nil
  then show ?case by simp
next
  case (Cons t ts)
  obtain r w' where b: "bw w [t] items = (r, w')" by (cases "bw w [t] items")
  obtain rs w'' where e: "write_each bw items ts w' = (rs, w'')" by (cases "write_each bw items ts w'")
  from Cons.IH[of w'] b e show ?case by simp
qed

lemma build_empty: "\<exists>item. build_dashboard_item a b c d [] = Inr item"
  by (simp add: build_dashboard_item_def d_get_def d_get_default_def py_or_def as_dict_def
      include_ec2_explicit_def include_section_def include_rds_explicit_def Let_def)

text \<open>
  Claim C9. When the dashboard item has been assembled, \<open>save_metrics_to_dynamodb\<close>
  returns whatever the collaborator does: it calls the collaborator once for each table
  of the list, in order, also after calls that raised, and returns the count of the last
  call that succeeded, \<open>0\<close> when none did; it is not the sum of the counts.
\<close>

theorem save_reports_last_success:
  assumes "build_dashboard_item date_str_iso date_str_br iso_timestamp duration metrics
             = Inr dashboard_item"
  shows "\<exists>trace w'.
     save_metrics_to_dynamodb batch_write date_str_iso date_str_br iso_timestamp duration w
         metrics_tables metrics
       = Inr (last_successful_count (map snd trace), w', trace)
     \<and> (trace, w') = write_each batch_write
           [PDict dashboard_item, PDict (make_dated_item dashboard_item date_str_br)]
           metrics_tables w
     \<and> map fst trace = metrics_tables"
proof -
  let ?items = "[PDict dashboard_item, PDict (make_dated_item dashboard_item date_str_br)]"
  obtain trace w' where e: "write_each batch_write ?items metrics_tables w = (trace, w')"
    by (cases "write_each batch_write ?items metrics_tables w")
  have "save_metrics_to_dynamodb batch_write date_str_iso date_str_br iso_timestamp duration w
         metrics_tables metrics = Inr (save_loop batch_write ?items metrics_tables 0 w [])"
    using assms by (simp add: save_metrics_to_dynamodb_def Let_def)
  also have "save_loop batch_write ?items metrics_tables 0 w []
      = (last_successful_count (map snd trace), w', trace)"
    using e by (simp add: save_loop_write_each last_successful_count_def Let_def)
  finally have "save_metrics_to_dynamodb batch_write date_str_iso date_str_br iso_timestamp
      duration w metrics_tables metrics = Inr (last_successful_count (map snd trace), w', trace)" .
  moreover have "map fst trace = metrics_tables"
    using write_each_tables[of batch_write ?items metrics_tables w] e by simp
  ultimately show ?thesis using e by auto
qed

theorem save_reports_last_success_witness:
  "(\<exists>item. build_dashboard_item ''2025-09-24'' ''24_09_2025'' (PStr ''2025-09-24T00:00:00Z'')
        (PInt 1) [] = Inr item)
   \<and> (\<exists>trace.
        save_metrics_to_dynamodb
          (\<lambda>w tables items. (if tables = [''broken''] then Inl ''boom'' else Inr 2, w))
          ''2025-09-24'' ''24_09_2025'' (PStr ''2025-09-24T00:00:00Z'') (PInt 1) ()
          [''first'', ''broken'', ''last''] []
        = Inr (2, (), trace)
      \<and> map fst trace = [''first'', ''broken'', ''last'']
      \<and> map snd trace = [Inr 2, Inl ''boom'', Inr 2])"
proof -
  let ?bw = "\<lambda>(w::unit) (tables::string list) (items::pyval list).
               (if tables = [''broken''] then Inl ''boom'' else Inr (2::int), w)"
  obtain item where b: "build_dashboard_item ''2025-09-24'' ''24_09_2025''
        (PStr ''2025-09-24T00:00:00Z'') (PInt 1) [] = Inr item"
    using build_empty by blast
  from save_reports_last_success[OF b, of ?bw "()" "[''first'', ''broken'', ''last'']"]
  obtain trace w' where s: "save_metrics_to_dynamodb ?bw ''2025-09-24'' ''24_09_2025''
        (PStr ''2025-09-24T00:00:00Z'') (PInt 1) () [''first'', ''broken'', ''last''] []
        = Inr (last_successful_count (map snd trace), w', trace)"
    and t: "(trace, w') = write_each ?bw [PDict item, PDict (make_dated_item item ''24_09_2025'')]
        [''first'', ''broken'', ''last''] ()"
    by blast
  from t have "trace = [(''first'', Inr 2), (''broken'', Inl ''boom''), (''last'', Inr 2)]"
    by simp
  with s b show ?thesis
    by (simp add: last_successful_count_def successes_def)
qed

end
